theory Spec2Isabelle
  imports Main "HOL-Library.AList"
begin

section \<open>Values, rows and Python strings\<close>

text \<open>
  The repository is a data-access layer: pydantic models under \<open>models/\<close>, a generic
  \<open>BaseService\<close> with entity services under \<open>services/\<close>, and the statement runner
  \<open>db/db_utils.py\<close>. Python values that travel between the services and the store
  (query arguments, cells of a fetched row, keyword arguments of a model) are modelled
  by the datatype \<open>val\<close>; a Python \<open>dict\<close> with string keys is an association list.

  A Python \<open>str\<close> is modelled as the list of its code points, for the code points
  U+0000 to U+00FF that the type \<open>char\<close> holds.
\<close>

datatype json =
    JNull
  | JBool bool
  | JInt int
  | JStr string
  | JArr "json list"
  | JObj "(string \<times> json) list"

datatype val =
    VNull
  | VBool bool
  | VInt int
  | VStr string
  | VTime nat
  | VJson json

type_synonym row = "(string \<times> val) list"

text \<open>Python truthiness (\<open>if v\<close>, \<open>not v\<close>) of a value.\<close>

fun truthy :: "val \<Rightarrow> bool" where
  "truthy VNull = False"
| "truthy (VBool b) = b"
| "truthy (VInt i) = (i \<noteq> 0)"
| "truthy (VStr s) = (s \<noteq> [])"
| "truthy (VTime t) = True"
| "truthy (VJson j) = (j \<noteq> JNull \<and> j \<noteq> JBool False \<and> j \<noteq> JInt 0 \<and> j \<noteq> JStr []
      \<and> j \<noteq> JArr [] \<and> j \<noteq> JObj [])"

subsection \<open>\<open>str.lower\<close> and \<open>str.replace\<close>\<close>

text \<open>
  \<open>str.lower\<close> on the code points below 256: the upper-case letters are A to Z
  (65 to 90) and U+00C0 to U+00DE without the multiplication sign U+00D7; each has its
  lower-case partner 32 places further.
\<close>

definition is_upper :: "char \<Rightarrow> bool" where
  "is_upper c =
     (let n = (of_char c :: nat)
      in (65 \<le> n \<and> n \<le> 90) \<or> (192 \<le> n \<and> n \<le> 222 \<and> n \<noteq> 215))"

definition lower_char :: "char \<Rightarrow> char" where
  "lower_char c = (if is_upper c then char_of (of_char c + (32::nat)) else c)"

definition lower :: "string \<Rightarrow> string" where
  "lower s = map lower_char s"

text \<open>\<open>s.replace(old, new)\<close> for a pattern \<open>old\<close> of one character.\<close>

definition replace_chr :: "char \<Rightarrow> string \<Rightarrow> string \<Rightarrow> string" where
  "replace_chr old new s = concat (map (\<lambda>c. if c = old then new else [c]) s)"

section \<open>Team names (services/team_service.py, models/team.py)\<close>

text \<open>
  \<open>TeamService._normalize_name\<close> (services/team_service.py):
  \<^verbatim>\<open>
    if not name:
        return ""
    return name.lower().replace(' ', '_').replace('-', '_').replace('.', '')
  \<close>
\<close>

definition normalize_name :: "string \<Rightarrow> string" where
  "normalize_name name =
     (if name = [] then []
      else replace_chr (CHR ''.'') []
             (replace_chr (CHR ''-'') ''_''
               (replace_chr (CHR '' '') ''_'' (lower name))))"

text \<open>
  The validator \<open>Team.set_normalized_name\<close> (models/team.py), called with the raw
  value \<open>v\<close> given for \<open>normalized_name\<close> and the dict \<open>values\<close> of the fields
  validated before it:
  \<^verbatim>\<open>
    if not v and 'name' in values and values['name']:
        return values['name'].lower().replace(' ', '_')
    return v
  \<close>
  \<open>name\<close> is declared \<open>str\<close>, so a validated \<open>values['name']\<close> is a string.
\<close>

definition set_normalized_name :: "val \<Rightarrow> row \<Rightarrow> val" where
  "set_normalized_name v values =
     (if \<not> truthy v then
        (case map_of values ''name'' of
           Some (VStr name) \<Rightarrow>
             if name \<noteq> [] then VStr (replace_chr (CHR '' '') ''_'' (lower name)) else v
         | _ \<Rightarrow> v)
      else v)"

text \<open>
  A character that the normalisation leaves alone: not upper-case, and none of the
  three characters it replaces or removes.
\<close>

definition settled :: "char \<Rightarrow> bool" where
  "settled c = (\<not> is_upper c \<and> c \<noteq> CHR '' '' \<and> c \<noteq> CHR ''-'' \<and> c \<noteq> CHR ''.'')"

section \<open>The store and the statement runner (db/db_utils.py)\<close>

text \<open>
  The relational store is an external collaborator. Its tables are lists of rows; a
  statement is the shape of the SQL text the services build, with its bound arguments:
  every \<open>WHERE\<close> clause in the modelled code is a conjunction of equalities
  \<open>column = $n\<close>. \<open>Insert\<close>, \<open>Update\<close> and \<open>Delete\<close> return the rows of their
  \<open>RETURNING\<close> clause.
\<close>

datatype error =
    StorageError string
  | PoolError string
  | ValidationError string
  | IndexError
  | TypeError

datatype stmt =
    Select string row
  | Insert string row
  | Update string row row
  | Delete string row

record db =
  tables :: "string \<Rightarrow> row list"
  serial :: "string \<Rightarrow> int option"

text \<open>
  A row satisfies \<open>c1 = v1 AND ... AND cn = vn\<close> when each cell equals its argument;
  SQL equality with \<open>NULL\<close> is never true.
\<close>

definition matches :: "row \<Rightarrow> row \<Rightarrow> bool" where
  "matches cond r = list_all (\<lambda>(c, v). v \<noteq> VNull \<and> map_of r c = Some v) cond"

text \<open>\<open>SET c1 = v1, ..., cn = vn\<close> on one row.\<close>

fun assign :: "row \<Rightarrow> row \<Rightarrow> row" where
  "assign [] r = r"
| "assign ((c, v) # cvs) r = assign cvs (AList.update c v r)"

text \<open>
  \<open>serial d t = Some n\<close> says that table \<open>t\<close> has a database-assigned \<open>id\<close> column whose
  sequence stands at \<open>n\<close>: an insert that names no \<open>id\<close> gets \<open>n\<close>.
\<close>

definition stored_row :: "db \<Rightarrow> string \<Rightarrow> row \<Rightarrow> row" where
  "stored_row d t r =
     (case serial d t of
        Some n \<Rightarrow> if map_of r ''id'' = None then (''id'', VInt n) # r else r
      | None \<Rightarrow> r)"

definition next_serial :: "db \<Rightarrow> string \<Rightarrow> row \<Rightarrow> int option" where
  "next_serial d t r =
     (case serial d t of
        Some n \<Rightarrow> if map_of r ''id'' = None then Some (n + 1) else Some n
      | None \<Rightarrow> None)"

fun run :: "stmt \<Rightarrow> db \<Rightarrow> row list \<times> db" where
  "run (Select t cond) d = (filter (matches cond) (tables d t), d)"
| "run (Insert t r) d =
     ([stored_row d t r],
      d\<lparr>tables := (tables d)(t := tables d t @ [stored_row d t r]),
        serial := (serial d)(t := next_serial d t r)\<rparr>)"
| "run (Update t cvs cond) d =
     (map (assign cvs) (filter (matches cond) (tables d t)),
      d\<lparr>tables := (tables d)(t := map (\<lambda>r. if matches cond r then assign cvs r else r) (tables d t))\<rparr>)"
| "run (Delete t cond) d =
     (filter (matches cond) (tables d t),
      d\<lparr>tables := (tables d)(t := filter (\<lambda>r. \<not> matches cond r) (tables d t))\<rparr>)"

text \<open>
  The arguments bound to the placeholders of a statement, and the statements that bind a
  Python \<open>dict\<close>. The driver encodes each argument for the type of its column;
  \<open>get_pool\<close> registers no type codec on the connections, so a \<open>dict\<close> has no
  encoder (for a text column: "expected str, got dict").
\<close>

fun arguments :: "stmt \<Rightarrow> val list" where
  "arguments (Select t cond) = map snd cond"
| "arguments (Insert t r) = map snd r"
| "arguments (Update t cvs cond) = map snd cond @ map snd cvs"
| "arguments (Delete t cond) = map snd cond"

fun is_dict :: "val \<Rightarrow> bool" where
  "is_dict (VJson (JObj kvs)) = True"
| "is_dict v = False"

definition binds_dict :: "stmt \<Rightarrow> bool" where
  "binds_dict q = list_ex is_dict (arguments q)"

text \<open>
  The store may refuse a call (connectivity, constraint violation, timeout, an argument
  that cannot be encoded): the oracle \<open>F\<close> says with which error, given the statement
  of the call and the state it meets. A refused statement changes nothing. The error
  \<open>PoolError\<close> stands for a failure of \<open>get_pool()\<close> or \<open>pool.acquire()\<close>:
  the call fails before it holds a connection. Every other error is raised by the
  statement on the connection.

  The world a service call runs in is the store together with what the call leaves
  behind besides its result: transaction boundaries and log records.
\<close>

type_synonym fault = "stmt \<Rightarrow> db \<Rightarrow> error option"

text \<open>The store that refuses nothing.\<close>

definition healthy :: fault where
  "healthy q d = None"

text \<open>
  \<open>pool = await get_pool()\<close> and \<open>async with pool.acquire() as conn\<close>, the first
  two lines of \<open>execute_query\<close> and of \<open>execute_transaction\<close>: the connection is
  taken once, before the first statement of the call, and the answer of the oracle for
  that statement says whether it can be taken.
\<close>

definition acquire :: "fault \<Rightarrow> stmt list \<Rightarrow> db \<Rightarrow> error option" where
  "acquire F queries d =
     (case queries of
        [] \<Rightarrow> None
      | q # qs \<Rightarrow>
          (case F q d of
             Some (PoolError m) \<Rightarrow> Some (PoolError m)
           | _ \<Rightarrow> None))"

datatype event =
    TxBegin
  | TxCommit
  | TxRollback
  | LogDbError error
  | LogDbQuery stmt
  | LogService string error

record world =
  store :: db
  trace :: "event list"

text \<open>
  \<^verbatim>\<open>
  async def execute_query(query, *args, fetch=True):
      pool = await get_pool()
      async with pool.acquire() as conn:
          try:
              if fetch:
                  rows = await conn.fetch(query, *args)
                  return [dict(row) for row in rows]
              else:
                  await conn.execute(query, *args)
                  return None
          except Exception as e:
              logger.error(f"Database error executing query: {e}")
              logger.debug(f"Query: {query}, Args: {args}")
              raise
  \<close>
  A failure to take the connection is raised before the \<open>try\<close>: nothing is logged.
  A failure of the statement is logged, with the statement, and raised again.
\<close>

definition execute_query ::
  "fault \<Rightarrow> stmt \<Rightarrow> bool \<Rightarrow> world \<Rightarrow> (error + row list option) \<times> world" where
  "execute_query F query fetch w =
     (case acquire F [query] (store w) of
        Some e \<Rightarrow> (Inl e, w)
      | None \<Rightarrow>
          (case F query (store w) of
             Some e \<Rightarrow> (Inl e, w\<lparr>trace := trace w @ [LogDbError e, LogDbQuery query]\<rparr>)
           | None \<Rightarrow>
               (case run query (store w) of
                  (rows, d) \<Rightarrow> (Inr (if fetch then Some rows else None), w\<lparr>store := d\<rparr>))))"

text \<open>What a refused call of \<open>execute_query\<close> leaves in the log.\<close>

definition logged :: "stmt \<Rightarrow> error \<Rightarrow> event list" where
  "logged query e =
     (case e of
        PoolError m \<Rightarrow> []
      | _ \<Rightarrow> [LogDbError e, LogDbQuery query])"



text \<open>The number of transactions a trace has seen start.\<close>

definition started :: "event list \<Rightarrow> nat" where
  "started evs = length (filter (\<lambda>ev. ev = TxBegin) evs)"

section \<open>The generic repository (services/base_service.py)\<close>

text \<open>
  \<open>BaseService(model_class, table_name)\<close>. What pydantic does for a model class is a
  parameter: \<open>construct\<close> is the call \<open>model_class(**row)\<close>, which validates and may
  raise; \<open>model_dump\<close> is \<open>obj.model_dump(exclude_none=True)\<close>; \<open>id_annotation\<close> is
  the declared type of the field \<open>id\<close>, if the class declares one.
\<close>

datatype annotation = AnnInt | AnnStr | AnnOptional annotation

record 'a model =
  construct :: "row \<Rightarrow> error + 'a"
  model_dump :: "'a \<Rightarrow> row"
  id_annotation :: "annotation option"

record 'a service =
  model_class :: "'a model"
  table_name :: string

text \<open>\<open>results[0]\<close>, and \<open>self.model_class(**results[0])\<close>.\<close>

definition first_row :: "row list option \<Rightarrow> error + row" where
  "first_row results =
     (case results of
        None \<Rightarrow> Inl TypeError
      | Some [] \<Rightarrow> Inl IndexError
      | Some (r # _) \<Rightarrow> Inr r)"

definition built :: "'a model \<Rightarrow> row list option \<Rightarrow> error + 'a" where
  "built M results =
     (case first_row results of
        Inl e \<Rightarrow> Inl e
      | Inr r \<Rightarrow> construct M r)"

text \<open>\<open>not results\<close> for the result of \<open>execute_query\<close>.\<close>

definition no_results :: "row list option \<Rightarrow> bool" where
  "no_results results = (results = None \<or> results = Some [])"

text \<open>
  \<^verbatim>\<open>
  def _is_id_auto_assigned(self):
      annotations = getattr(self.model_class, '__annotations__', {})
      id_type = annotations.get('id', None)
      if id_type is None:
          return False
      return getattr(id_type, '__origin__', id_type) is int
  \<close>
  Only the plain annotation \<open>int\<close> is \<open>int\<close> itself; \<open>Optional[int]\<close> has the origin
  \<open>Union\<close>.
\<close>

definition is_id_auto_assigned :: "'a service \<Rightarrow> bool" where
  "is_id_auto_assigned svc =
     (case id_annotation (model_class svc) of
        None \<Rightarrow> False
      | Some a \<Rightarrow> a = AnnInt)"

text \<open>
  \<^verbatim>\<open>
  async def get_by_id(self, id_value):
      query = f"SELECT * FROM {self.table_name} WHERE id = $1"
      results = await execute_query(query, id_value)
      if not results:
          return None
      return self.model_class(**results[0])
  \<close>
\<close>

definition get_by_id ::
  "fault \<Rightarrow> 'a service \<Rightarrow> val \<Rightarrow> world \<Rightarrow> (error + 'a option) \<times> world" where
  "get_by_id F svc id_value w =
     (case execute_query F (Select (table_name svc) [(''id'', id_value)]) True w of
        (Inl e, w') \<Rightarrow> (Inl e, w')
      | (Inr results, w') \<Rightarrow>
          if no_results results then (Inr None, w')
          else (case built (model_class svc) results of
                  Inl e \<Rightarrow> (Inl e, w')
                | Inr x \<Rightarrow> (Inr (Some x), w')))"

text \<open>
  \<^verbatim>\<open>
  async def create(self, obj):
      data = obj.model_dump(exclude_none=True)
      if 'id' in data and (data['id'] is None or self._is_id_auto_assigned()):
          del data['id']
      columns = ', '.join(data.keys())
      placeholders = ', '.join(f'${i+1}' for i in range(len(data)))
      values = list(data.values())
      query = f"INSERT INTO {self.table_name} ({columns}) VALUES ({placeholders}) RETURNING *"
      results = await execute_query(query, *values)
      return self.model_class(**results[0])
  \<close>
\<close>

definition create_data :: "'a service \<Rightarrow> 'a \<Rightarrow> row" where
  "create_data svc obj =
     (let data = model_dump (model_class svc) obj
      in if map_of data ''id'' \<noteq> None
            \<and> (map_of data ''id'' = Some VNull \<or> is_id_auto_assigned svc)
         then AList.delete ''id'' data
         else data)"

definition create ::
  "fault \<Rightarrow> 'a service \<Rightarrow> 'a \<Rightarrow> world \<Rightarrow> (error + 'a) \<times> world" where
  "create F svc obj w =
     (case execute_query F (Insert (table_name svc) (create_data svc obj)) True w of
        (Inl e, w') \<Rightarrow> (Inl e, w')
      | (Inr results, w') \<Rightarrow> (built (model_class svc) results, w'))"

text \<open>
  \<^verbatim>\<open>
  async def update(self, id_value, obj):
      if isinstance(obj, BaseModel):
          data = obj.model_dump(exclude_none=True)
      else:
          data = obj
      if 'id' in data:
          del data['id']
      if not data:
          return await self.get_by_id(id_value)
      set_clause = ', '.join(f"{k} = ${i+2}" for i, k in enumerate(data.keys()))
      values = list(data.values())
      query = f"UPDATE {self.table_name} SET {set_clause} WHERE id = $1 RETURNING *"
      results = await execute_query(query, id_value, *values)
      if not results:
          return None
      return self.model_class(**results[0])
  \<close>
  The argument is a model instance or a dict of fields.
\<close>

datatype 'a payload = Entity 'a | Fields row

definition update_data :: "'a service \<Rightarrow> 'a payload \<Rightarrow> row" where
  "update_data svc obj =
     AList.delete ''id''
       (case obj of
          Entity x \<Rightarrow> model_dump (model_class svc) x
        | Fields d \<Rightarrow> d)"

definition update ::
  "fault \<Rightarrow> 'a service \<Rightarrow> val \<Rightarrow> 'a payload \<Rightarrow> world \<Rightarrow> (error + 'a option) \<times> world" where
  "update F svc id_value obj w =
     (if update_data svc obj = [] then get_by_id F svc id_value w
      else
        (case execute_query F
                (Update (table_name svc) (update_data svc obj) [(''id'', id_value)]) True w of
           (Inl e, w') \<Rightarrow> (Inl e, w')
         | (Inr results, w') \<Rightarrow>
             if no_results results then (Inr None, w')
             else (case built (model_class svc) results of
                     Inl e \<Rightarrow> (Inl e, w')
                   | Inr x \<Rightarrow> (Inr (Some x), w'))))"

text \<open>
  \<^verbatim>\<open>
  async def delete(self, id_value):
      query = f"DELETE FROM {self.table_name} WHERE id = $1 RETURNING id"
      results = await execute_query(query, id_value)
      return len(results) > 0
  \<close>
\<close>

definition delete ::
  "fault \<Rightarrow> 'a service \<Rightarrow> val \<Rightarrow> world \<Rightarrow> (error + bool) \<times> world" where
  "delete F svc id_value w =
     (case execute_query F (Delete (table_name svc) [(''id'', id_value)]) True w of
        (Inl e, w') \<Rightarrow> (Inl e, w')
      | (Inr None, w') \<Rightarrow> (Inl TypeError, w')
      | (Inr (Some rows), w') \<Rightarrow> (Inr (0 < length rows), w'))"

section \<open>Recruits (services/recruit_service.py)\<close>







section \<open>Models (models/base.py, models/gpt_cache.py)\<close>

text \<open>
  \<open>TimestampModel\<close> gives every model \<open>created_at\<close> and \<open>updated_at\<close>, both
  \<open>Optional[datetime]\<close> with the default \<open>datetime.utcnow()\<close>. Instants are natural
  numbers; \<open>now\<close> is what the clock reads while the call runs.

  A field of a model is read from the keyword arguments by its declared type: a missing
  optional field takes its default, a missing required field and a cell of another type
  are validation errors.
\<close>

record timestamp_model =
  created_at :: "nat option"
  updated_at :: "nat option"

definition req_str :: "row \<Rightarrow> string \<Rightarrow> error + string" where
  "req_str kw k =
     (case map_of kw k of
        Some (VStr s) \<Rightarrow> Inr s
      | _ \<Rightarrow> Inl (ValidationError k))"

definition req_int :: "row \<Rightarrow> string \<Rightarrow> error + int" where
  "req_int kw k =
     (case map_of kw k of
        Some (VInt i) \<Rightarrow> Inr i
      | _ \<Rightarrow> Inl (ValidationError k))"

definition opt_str :: "row \<Rightarrow> string \<Rightarrow> error + string option" where
  "opt_str kw k =
     (case map_of kw k of
        None \<Rightarrow> Inr None
      | Some VNull \<Rightarrow> Inr None
      | Some (VStr s) \<Rightarrow> Inr (Some s)
      | _ \<Rightarrow> Inl (ValidationError k))"

definition opt_int :: "row \<Rightarrow> string \<Rightarrow> error + int option" where
  "opt_int kw k =
     (case map_of kw k of
        None \<Rightarrow> Inr None
      | Some VNull \<Rightarrow> Inr None
      | Some (VInt i) \<Rightarrow> Inr (Some i)
      | _ \<Rightarrow> Inl (ValidationError k))"

definition opt_time :: "nat \<Rightarrow> row \<Rightarrow> string \<Rightarrow> error + nat option" where
  "opt_time now kw k =
     (case map_of kw k of
        None \<Rightarrow> Inr (Some now)
      | Some VNull \<Rightarrow> Inr None
      | Some (VTime t) \<Rightarrow> Inr (Some t)
      | _ \<Rightarrow> Inl (ValidationError k))"

text \<open>\<open>model_dump(exclude_none=True)\<close> leaves out a field that is \<open>None\<close>.\<close>

definition dump_field :: "string \<Rightarrow> val option \<Rightarrow> row" where
  "dump_field k v =
     (case v of
        None \<Rightarrow> []
      | Some x \<Rightarrow> [(k, x)])"

definition dump_timestamps :: "'a timestamp_model_scheme \<Rightarrow> row" where
  "dump_timestamps m =
     dump_field ''created_at'' (map_option VTime (created_at m))
     @ dump_field ''updated_at'' (map_option VTime (updated_at m))"

text \<open>
  \<open>json.loads\<close> and \<open>json.dumps\<close> are library functions and parameters here:
  \<open>loads s = None\<close> stands for \<open>json.JSONDecodeError\<close>.

  \<^verbatim>\<open>
  class GPTCache(TimestampModel):
      id: Optional[int] = None
      content_hash: str
      email: Optional[str] = None
      result_json: Dict[str, Any]

      @validator('result_json', pre=True)
      def validate_result_json(cls, v):
          if isinstance(v, str):
              try:
                  return json.loads(v)
              except json.JSONDecodeError:
                  raise ValueError("Invalid JSON format for result_json")
          return v
  \<close>
\<close>

record gpt_cache = timestamp_model +
  gc_id :: "int option"
  content_hash :: string
  gc_email :: "string option"
  result_json :: "(string \<times> json) list"

definition validate_result_json :: "(string \<Rightarrow> json option) \<Rightarrow> val \<Rightarrow> error + val" where
  "validate_result_json loads v =
     (case v of
        VStr s \<Rightarrow>
          (case loads s of
             Some j \<Rightarrow> Inr (VJson j)
           | None \<Rightarrow> Inl (ValidationError ''Invalid JSON format for result_json''))
      | _ \<Rightarrow> Inr v)"

text \<open>The declared type \<open>Dict[str, Any]\<close> of a validated value.\<close>

definition as_dict :: "string \<Rightarrow> val \<Rightarrow> error + (string \<times> json) list" where
  "as_dict k v =
     (case v of
        VJson (JObj kvs) \<Rightarrow> Inr kvs
      | _ \<Rightarrow> Inl (ValidationError k))"

definition result_json_field ::
  "(string \<Rightarrow> json option) \<Rightarrow> row \<Rightarrow> error + (string \<times> json) list" where
  "result_json_field loads kw =
     (case map_of kw ''result_json'' of
        None \<Rightarrow> Inl (ValidationError ''result_json'')
      | Some v \<Rightarrow>
          (case validate_result_json loads v of
             Inl e \<Rightarrow> Inl e
           | Inr v' \<Rightarrow> as_dict ''result_json'' v'))"

definition GPTCache ::
  "(string \<Rightarrow> json option) \<Rightarrow> nat \<Rightarrow> row \<Rightarrow> error + gpt_cache" where
  "GPTCache loads now kw =
     (case opt_time now kw ''created_at'' of Inl e \<Rightarrow> Inl e | Inr c \<Rightarrow>
     (case opt_time now kw ''updated_at'' of Inl e \<Rightarrow> Inl e | Inr u \<Rightarrow>
     (case opt_int kw ''id'' of Inl e \<Rightarrow> Inl e | Inr i \<Rightarrow>
     (case req_str kw ''content_hash'' of Inl e \<Rightarrow> Inl e | Inr h \<Rightarrow>
     (case opt_str kw ''email'' of Inl e \<Rightarrow> Inl e | Inr m \<Rightarrow>
     (case result_json_field loads kw of Inl e \<Rightarrow> Inl e | Inr j \<Rightarrow>
        Inr \<lparr>created_at = c, updated_at = u, gc_id = i, content_hash = h,
             gc_email = m, result_json = j\<rparr>))))))"

definition GPTCache_dump :: "gpt_cache \<Rightarrow> row" where
  "GPTCache_dump g =
     dump_timestamps g
     @ dump_field ''id'' (map_option VInt (gc_id g))
     @ [(''content_hash'', VStr (content_hash g))]
     @ dump_field ''email'' (map_option VStr (gc_email g))
     @ [(''result_json'', VJson (JObj (result_json g)))]"

definition GPTCache_model :: "(string \<Rightarrow> json option) \<Rightarrow> nat \<Rightarrow> gpt_cache model" where
  "GPTCache_model loads now =
     \<lparr>construct = GPTCache loads now,
      model_dump = GPTCache_dump,
      id_annotation = Some (AnnOptional AnnInt)\<rparr>"

section \<open>The content cache (services/gpt_cache_service.py)\<close>

text \<open>\<open>GPTCacheService\<close> is \<open>BaseService(GPTCache, 'gpt_cache')\<close>.\<close>

definition gpt_cache_service ::
  "(string \<Rightarrow> json option) \<Rightarrow> nat \<Rightarrow> gpt_cache service" where
  "gpt_cache_service loads now =
     \<lparr>model_class = GPTCache_model loads now, table_name = ''gpt_cache''\<rparr>"

text \<open>
  \<^verbatim>\<open>
  def generate_hash(self, content):
      return hashlib.md5(content.encode('utf-8')).hexdigest()
  \<close>
  The digest is the parameter \<open>md5\<close>: the hexadecimal MD5 digest of the UTF-8 encoding
  of a string.
\<close>

definition generate_hash :: "(string \<Rightarrow> string) \<Rightarrow> string \<Rightarrow> string" where
  "generate_hash md5 content = md5 content"

text \<open>
  \<^verbatim>\<open>
  async def get_by_content_hash(self, content_hash):
      query = "SELECT * FROM gpt_cache WHERE content_hash = $1"
      results = await execute_query(query, content_hash)
      if not results:
          return None
      return GPTCache(**results[0])
  \<close>
\<close>

definition get_by_content_hash ::
  "fault \<Rightarrow> (string \<Rightarrow> json option) \<Rightarrow> nat \<Rightarrow> string \<Rightarrow> world
     \<Rightarrow> (error + gpt_cache option) \<times> world" where
  "get_by_content_hash F loads now h w =
     (case execute_query F (Select ''gpt_cache'' [(''content_hash'', VStr h)]) True w of
        (Inl e, w') \<Rightarrow> (Inl e, w')
      | (Inr results, w') \<Rightarrow>
          if no_results results then (Inr None, w')
          else (case built (GPTCache_model loads now) results of
                  Inl e \<Rightarrow> (Inl e, w')
                | Inr x \<Rightarrow> (Inr (Some x), w')))"

text \<open>
  \<^verbatim>\<open>
  async def create_or_update(self, content, result, email=None):
      content_hash = self.generate_hash(content)
      existing = await self.get_by_content_hash(content_hash)
      if existing:
          query = """
              UPDATE gpt_cache
              SET result_json = $2, email = $3, updated_at = $4
              WHERE content_hash = $1
              RETURNING *
          """
          now = datetime.utcnow()
          result_json = json.dumps(result)
          results = await execute_query(query, content_hash, result_json, email, now)
          return GPTCache(**results[0])
      else:
          cache = GPTCache(content_hash=content_hash, email=email, result_json=result)
          return await self.create(cache)
  \<close>
\<close>

definition py_opt_str :: "string option \<Rightarrow> val" where
  "py_opt_str s =
     (case s of
        None \<Rightarrow> VNull
      | Some x \<Rightarrow> VStr x)"

definition upsert_query ::
  "(json \<Rightarrow> string) \<Rightarrow> nat \<Rightarrow> string \<Rightarrow> (string \<times> json) list \<Rightarrow> string option \<Rightarrow> stmt" where
  "upsert_query dumps now h result email =
     Update ''gpt_cache''
       [(''result_json'', VStr (dumps (JObj result))),
        (''email'', py_opt_str email),
        (''updated_at'', VTime now)]
       [(''content_hash'', VStr h)]"

definition create_or_update ::
  "fault \<Rightarrow> (string \<Rightarrow> string) \<Rightarrow> (json \<Rightarrow> string) \<Rightarrow> (string \<Rightarrow> json option) \<Rightarrow> nat
     \<Rightarrow> string \<Rightarrow> (string \<times> json) list \<Rightarrow> string option \<Rightarrow> world
     \<Rightarrow> (error + gpt_cache) \<times> world" where
  "create_or_update F md5 dumps loads now content result email w =
     (case get_by_content_hash F loads now (generate_hash md5 content) w of
        (Inl e, w1) \<Rightarrow> (Inl e, w1)
      | (Inr (Some existing), w1) \<Rightarrow>
          (case execute_query F
                  (upsert_query dumps now (generate_hash md5 content) result email) True w1 of
             (Inl e, w2) \<Rightarrow> (Inl e, w2)
           | (Inr results, w2) \<Rightarrow> (built (GPTCache_model loads now) results, w2))
      | (Inr None, w1) \<Rightarrow>
          (case GPTCache loads now
                  [(''content_hash'', VStr (generate_hash md5 content)),
                   (''email'', py_opt_str email),
                   (''result_json'', VJson (JObj result))] of
             Inl e \<Rightarrow> (Inl e, w1)
           | Inr cache \<Rightarrow> create F (gpt_cache_service loads now) cache w1))"

text \<open>The cache entries stored under a content hash.\<close>

definition entries :: "string \<Rightarrow> world \<Rightarrow> row list" where
  "entries h w =
     filter (matches [(''content_hash'', VStr h)]) (tables (store w) ''gpt_cache'')"

text \<open>
  The row that \<open>create\<close> sends for a new cache entry, and the rows of the table from
  which the \<open>GPTCache\<close> model can be constructed.
\<close>

definition new_entry :: "nat \<Rightarrow> string \<Rightarrow> (string \<times> json) list \<Rightarrow> string option \<Rightarrow> row" where
  "new_entry now h result email =
     [(''created_at'', VTime now), (''updated_at'', VTime now), (''content_hash'', VStr h)]
     @ dump_field ''email'' (map_option VStr email)
     @ [(''result_json'', VJson (JObj result))]"

definition valid_entry :: "(string \<Rightarrow> json option) \<Rightarrow> row \<Rightarrow> bool" where
  "valid_entry loads r = (case GPTCache loads 0 r of Inl e \<Rightarrow> False | Inr g \<Rightarrow> True)"

section \<open>The email queue (models/email.py, services/email_service.py)\<close>

text \<open>
  \<^verbatim>\<open>
  class ProcessingStatus(str, Enum):
      QUEUED = "QUEUED"
      PROCESSING = "PROCESSING"
      COMPLETED = "COMPLETED"
      FAILED = "FAILED"
  \<close>
\<close>

datatype ProcessingStatus = QUEUED | PROCESSING | COMPLETED | FAILED

fun status_value :: "ProcessingStatus \<Rightarrow> string" where
  "status_value QUEUED = ''QUEUED''"
| "status_value PROCESSING = ''PROCESSING''"
| "status_value COMPLETED = ''COMPLETED''"
| "status_value FAILED = ''FAILED''"

text \<open>
  \<open>EmailQueueService\<close> is \<open>BaseService(EmailQueue, 'email_queue')\<close>.
  \<^verbatim>\<open>
  async def update_status(self, queue_id, status, error_message=None):
      processed_at = None
      if status in [ProcessingStatus.COMPLETED, ProcessingStatus.FAILED]:
          processed_at = datetime.utcnow()
      query = """
          UPDATE email_queue
          SET status = $2, processed_at = $3, error_message = $4, updated_at = $5
          WHERE id = $1
          RETURNING *
      """
      now = datetime.utcnow()
      results = await execute_query(query, queue_id, status.value, processed_at,
                                    error_message, now)
      if not results:
          return None
      return EmailQueue(**results[0])
  \<close>
  The clock is read up to twice: \<open>stamp\<close> is the first reading, \<open>now\<close> the second.
\<close>

definition processed_at_of :: "nat \<Rightarrow> ProcessingStatus \<Rightarrow> val" where
  "processed_at_of stamp status =
     (if status = COMPLETED \<or> status = FAILED then VTime stamp else VNull)"

definition status_cells :: "nat \<Rightarrow> nat \<Rightarrow> ProcessingStatus \<Rightarrow> string option \<Rightarrow> row" where
  "status_cells stamp now status error_message =
     [(''status'', VStr (status_value status)),
      (''processed_at'', processed_at_of stamp status),
      (''error_message'', py_opt_str error_message),
      (''updated_at'', VTime now)]"

definition update_status_query ::
  "nat \<Rightarrow> nat \<Rightarrow> int \<Rightarrow> ProcessingStatus \<Rightarrow> string option \<Rightarrow> stmt" where
  "update_status_query stamp now queue_id status error_message =
     Update ''email_queue'' (status_cells stamp now status error_message)
       [(''id'', VInt queue_id)]"

definition update_status ::
  "fault \<Rightarrow> 'a model \<Rightarrow> nat \<Rightarrow> nat \<Rightarrow> int \<Rightarrow> ProcessingStatus \<Rightarrow> string option \<Rightarrow> world
     \<Rightarrow> (error + 'a option) \<times> world" where
  "update_status F EmailQueue stamp now queue_id status error_message w =
     (case execute_query F (update_status_query stamp now queue_id status error_message) True w of
        (Inl e, w') \<Rightarrow> (Inl e, w')
      | (Inr results, w') \<Rightarrow>
          if no_results results then (Inr None, w')
          else (case built EmailQueue results of
                  Inl e \<Rightarrow> (Inl e, w')
                | Inr x \<Rightarrow> (Inr (Some x), w')))"

section \<open>Teams and aliases (models/team.py, services/team_service.py)\<close>

text \<open>
  \<^verbatim>\<open>
  class TeamAlias(TimestampModel):
      id: Optional[int] = None
      team_id: int
      alias: str
      source: Optional[str] = None
  \<close>
\<close>

record team_alias = timestamp_model +
  ta_id :: "int option"
  team_id :: int
  alias_text :: string
  ta_source :: "string option"

definition TeamAlias :: "nat \<Rightarrow> row \<Rightarrow> error + team_alias" where
  "TeamAlias now kw =
     (case opt_time now kw ''created_at'' of Inl e \<Rightarrow> Inl e | Inr c \<Rightarrow>
     (case opt_time now kw ''updated_at'' of Inl e \<Rightarrow> Inl e | Inr u \<Rightarrow>
     (case opt_int kw ''id'' of Inl e \<Rightarrow> Inl e | Inr i \<Rightarrow>
     (case req_int kw ''team_id'' of Inl e \<Rightarrow> Inl e | Inr t \<Rightarrow>
     (case req_str kw ''alias'' of Inl e \<Rightarrow> Inl e | Inr a \<Rightarrow>
     (case opt_str kw ''source'' of Inl e \<Rightarrow> Inl e | Inr s \<Rightarrow>
        Inr \<lparr>created_at = c, updated_at = u, ta_id = i, team_id = t,
             alias_text = a, ta_source = s\<rparr>))))))"

definition TeamAlias_dump :: "team_alias \<Rightarrow> row" where
  "TeamAlias_dump x =
     dump_timestamps x
     @ dump_field ''id'' (map_option VInt (ta_id x))
     @ [(''team_id'', VInt (team_id x)), (''alias'', VStr (alias_text x))]
     @ dump_field ''source'' (map_option VStr (ta_source x))"

definition TeamAlias_model :: "nat \<Rightarrow> team_alias model" where
  "TeamAlias_model now =
     \<lparr>construct = TeamAlias now,
      model_dump = TeamAlias_dump,
      id_annotation = Some (AnnOptional AnnInt)\<rparr>"

text \<open>
  \<open>TeamService\<close> is \<open>BaseService(Team, 'teams')\<close> and holds a
  \<open>TeamAliasService\<close>, which is \<open>BaseService(TeamAlias, 'team_aliases')\<close>.
\<close>

definition team_service :: "'a model \<Rightarrow> 'a service" where
  "team_service Team = \<lparr>model_class = Team, table_name = ''teams''\<rparr>"

definition alias_service :: "nat \<Rightarrow> team_alias service" where
  "alias_service now = \<lparr>model_class = TeamAlias_model now, table_name = ''team_aliases''\<rparr>"

text \<open>
  \<^verbatim>\<open>
  async def get_by_alias(self, alias):
      query = "SELECT * FROM team_aliases WHERE alias = $1"
      results = await execute_query(query, alias)
      if not results:
          return None
      return TeamAlias(**results[0])
  \<close>
\<close>

definition get_by_alias ::
  "fault \<Rightarrow> nat \<Rightarrow> string \<Rightarrow> world \<Rightarrow> (error + team_alias option) \<times> world" where
  "get_by_alias F now a w =
     (case execute_query F (Select ''team_aliases'' [(''alias'', VStr a)]) True w of
        (Inl e, w') \<Rightarrow> (Inl e, w')
      | (Inr results, w') \<Rightarrow>
          if no_results results then (Inr None, w')
          else (case built (TeamAlias_model now) results of
                  Inl e \<Rightarrow> (Inl e, w')
                | Inr x \<Rightarrow> (Inr (Some x), w')))"

text \<open>
  \<^verbatim>\<open>
  async def add_alias(self, team_id, alias, source=None):
      team = await self.get_by_id(team_id)
      if not team:
          return None
      existing_alias = await self.alias_service.get_by_alias(alias)
      if existing_alias:
          return existing_alias
      alias_data = {"team_id": team_id, "alias": alias, "source": source}
      alias = TeamAlias(**alias_data)
      created_alias = await self.alias_service.create(alias)
      return created_alias
  \<close>
\<close>

definition add_alias ::
  "fault \<Rightarrow> 'a model \<Rightarrow> nat \<Rightarrow> int \<Rightarrow> string \<Rightarrow> string option \<Rightarrow> world
     \<Rightarrow> (error + team_alias option) \<times> world" where
  "add_alias F Team now tid a source w =
     (case get_by_id F (team_service Team) (VInt tid) w of
        (Inl e, w1) \<Rightarrow> (Inl e, w1)
      | (Inr None, w1) \<Rightarrow> (Inr None, w1)
      | (Inr (Some team), w1) \<Rightarrow>
          (case get_by_alias F now a w1 of
             (Inl e, w2) \<Rightarrow> (Inl e, w2)
           | (Inr (Some existing_alias), w2) \<Rightarrow> (Inr (Some existing_alias), w2)
           | (Inr None, w2) \<Rightarrow>
               (case TeamAlias now
                       [(''team_id'', VInt tid), (''alias'', VStr a),
                        (''source'', py_opt_str source)] of
                  Inl e \<Rightarrow> (Inl e, w2)
                | Inr x \<Rightarrow>
                    (case create F (alias_service now) x w2 of
                       (Inl e, w3) \<Rightarrow> (Inl e, w3)
                     | (Inr created_alias, w3) \<Rightarrow> (Inr (Some created_alias), w3)))))"

text \<open>The alias cells of the alias table, row by row.\<close>

definition alias_cells :: "world \<Rightarrow> val option list" where
  "alias_cells w = map (\<lambda>r. map_of r ''alias'') (tables (store w) ''team_aliases'')"

section \<open>Users and their settings (models/user.py, services/user_service.py)\<close>

text \<open>
  \<^verbatim>\<open>
  class UserSettings(BaseModel):
      user_id: str
      selected_folders: Optional[str] = None
      fetch_frequency: str = 'manual'
      batch_process_enabled: bool = False
  \<close>
\<close>

record user_settings =
  us_user_id :: string
  selected_folders :: "string option"
  fetch_frequency :: string
  batch_process_enabled :: bool

definition UserSettings :: "row \<Rightarrow> error + user_settings" where
  "UserSettings kw =
     (case req_str kw ''user_id'' of Inl e \<Rightarrow> Inl e | Inr u \<Rightarrow>
     (case opt_str kw ''selected_folders'' of Inl e \<Rightarrow> Inl e | Inr s \<Rightarrow>
     (case map_of kw ''fetch_frequency'' of
        None \<Rightarrow>
          (case map_of kw ''batch_process_enabled'' of
             None \<Rightarrow> Inr \<lparr>us_user_id = u, selected_folders = s,
                           fetch_frequency = ''manual'', batch_process_enabled = False\<rparr>
           | Some (VBool b) \<Rightarrow> Inr \<lparr>us_user_id = u, selected_folders = s,
                           fetch_frequency = ''manual'', batch_process_enabled = b\<rparr>
           | _ \<Rightarrow> Inl (ValidationError ''batch_process_enabled''))
      | Some (VStr f) \<Rightarrow>
          (case map_of kw ''batch_process_enabled'' of
             None \<Rightarrow> Inr \<lparr>us_user_id = u, selected_folders = s,
                           fetch_frequency = f, batch_process_enabled = False\<rparr>
           | Some (VBool b) \<Rightarrow> Inr \<lparr>us_user_id = u, selected_folders = s,
                           fetch_frequency = f, batch_process_enabled = b\<rparr>
           | _ \<Rightarrow> Inl (ValidationError ''batch_process_enabled''))
      | _ \<Rightarrow> Inl (ValidationError ''fetch_frequency''))))"

definition UserSettings_dump :: "user_settings \<Rightarrow> row" where
  "UserSettings_dump s =
     [(''user_id'', VStr (us_user_id s))]
     @ dump_field ''selected_folders'' (map_option VStr (selected_folders s))
     @ [(''fetch_frequency'', VStr (fetch_frequency s)),
        (''batch_process_enabled'', VBool (batch_process_enabled s))]"

definition UserSettings_model :: "user_settings model" where
  "UserSettings_model =
     \<lparr>construct = UserSettings, model_dump = UserSettings_dump, id_annotation = None\<rparr>"

text \<open>
  \<open>UserService\<close> is \<open>BaseService(User, 'users')\<close> and holds a
  \<open>UserSettingsService\<close>, which is \<open>BaseService(UserSettings, 'user_settings')\<close>.
  \<open>user_id_of\<close> reads the attribute \<open>id\<close> of a \<open>User\<close>.
  \<^verbatim>\<open>
  async def create_with_settings(self, user, settings=None):
      """Create a user with optional settings in a transaction."""
      created_user = await self.create(user)
      if settings:
          settings.user_id = created_user.id
          created_settings = await self.settings_service.create(settings)
          return created_user, created_settings
      return created_user, None
  \<close>
\<close>

definition user_service :: "'u model \<Rightarrow> 'u service" where
  "user_service User = \<lparr>model_class = User, table_name = ''users''\<rparr>"

definition settings_service :: "user_settings service" where
  "settings_service = \<lparr>model_class = UserSettings_model, table_name = ''user_settings''\<rparr>"

definition create_with_settings ::
  "fault \<Rightarrow> 'u model \<Rightarrow> ('u \<Rightarrow> string) \<Rightarrow> 'u \<Rightarrow> user_settings option \<Rightarrow> world
     \<Rightarrow> (error + 'u \<times> user_settings option) \<times> world" where
  "create_with_settings F User user_id_of user settings w =
     (case create F (user_service User) user w of
        (Inl e, w1) \<Rightarrow> (Inl e, w1)
      | (Inr created_user, w1) \<Rightarrow>
          (case settings of
             None \<Rightarrow> (Inr (created_user, None), w1)
           | Some s \<Rightarrow>
               (case create F settings_service
                       (s\<lparr>us_user_id := user_id_of created_user\<rparr>) w1 of
                  (Inl e, w2) \<Rightarrow> (Inl e, w2)
                | (Inr created_settings, w2) \<Rightarrow>
                    (Inr (created_user, Some created_settings), w2))))"

section \<open>JSON fields kept as text (models/feedback.py, models/scraper.py, models/schedule.py)\<close>

text \<open>
  \<^verbatim>\<open>
  class ExtractionFeedback(TimestampModel):
      @validator('original_extraction', 'corrected_values', pre=True)
      def validate_json_fields(cls, v):
          if isinstance(v, str):
              try:
                  return json.loads(v)
              except json.JSONDecodeError:
                  raise ValueError("Invalid JSON format")
          return v
  \<close>
\<close>

definition validate_json_fields :: "(string \<Rightarrow> json option) \<Rightarrow> val \<Rightarrow> error + val" where
  "validate_json_fields loads v =
     (case v of
        VStr s \<Rightarrow>
          (case loads s of
             Some j \<Rightarrow> Inr (VJson j)
           | None \<Rightarrow> Inl (ValidationError ''Invalid JSON format''))
      | _ \<Rightarrow> Inr v)"

text \<open>
  \<^verbatim>\<open>
  class ScraperConfiguration(TimestampModel):
      @validator('parameters', pre=True)
      def validate_parameters(cls, v):
          if isinstance(v, str):
              try:
                  return json.loads(v)
              except json.JSONDecodeError:
                  raise ValueError("Invalid JSON format for parameters")
          return v or {}

  class ScrapingLog(TimestampModel):
      @validator('results', pre=True)
      def validate_results(cls, v):
          if isinstance(v, str):
              try:
                  return json.loads(v)
              except json.JSONDecodeError:
                  raise ValueError("Invalid JSON format for results")
          return v or {}
  \<close>
\<close>

definition validate_parameters :: "(string \<Rightarrow> json option) \<Rightarrow> val \<Rightarrow> error + val" where
  "validate_parameters loads v =
     (case v of
        VStr s \<Rightarrow>
          (case loads s of
             Some j \<Rightarrow> Inr (VJson j)
           | None \<Rightarrow> Inl (ValidationError ''Invalid JSON format for parameters''))
      | _ \<Rightarrow> Inr (if truthy v then v else VJson (JObj [])))"

definition validate_results :: "(string \<Rightarrow> json option) \<Rightarrow> val \<Rightarrow> error + val" where
  "validate_results loads v =
     (case v of
        VStr s \<Rightarrow>
          (case loads s of
             Some j \<Rightarrow> Inr (VJson j)
           | None \<Rightarrow> Inl (ValidationError ''Invalid JSON format for results''))
      | _ \<Rightarrow> Inr (if truthy v then v else VJson (JObj [])))"

text \<open>
  \<^verbatim>\<open>
  class Schedule(TimestampModel):
      id: Optional[int] = None
      user_id: str
      recruit_id: Optional[int] = None
      recruit_email: Optional[str] = None
      home_team: Optional[str] = None
      away_team: Optional[str] = None
      home_participants: Optional[str] = None  # JSON array as text
      away_participants: Optional[str] = None  # JSON array as text
      event_name: Optional[str] = None
      is_master: bool = False
      source: str = 'manual'
      date: str
      time: Optional[str] = None
      location: Optional[str] = None
  \<close>
\<close>

record schedule = timestamp_model +
  sc_id :: "int option"
  sc_user_id :: string
  sc_recruit_id :: "int option"
  recruit_email :: "string option"
  home_team :: "string option"
  away_team :: "string option"
  home_participants :: "string option"
  away_participants :: "string option"
  event_name :: "string option"
  is_master :: bool
  sc_source :: string
  sc_date :: string
  sc_time :: "string option"
  location :: "string option"

text \<open>\<open>TimestampModel.to_dict\<close> is \<open>self.model_dump(exclude_none=True)\<close>.\<close>

definition Schedule_dump :: "schedule \<Rightarrow> row" where
  "Schedule_dump s =
     dump_timestamps s
     @ dump_field ''id'' (map_option VInt (sc_id s))
     @ [(''user_id'', VStr (sc_user_id s))]
     @ dump_field ''recruit_id'' (map_option VInt (sc_recruit_id s))
     @ dump_field ''recruit_email'' (map_option VStr (recruit_email s))
     @ dump_field ''home_team'' (map_option VStr (home_team s))
     @ dump_field ''away_team'' (map_option VStr (away_team s))
     @ dump_field ''home_participants'' (map_option VStr (home_participants s))
     @ dump_field ''away_participants'' (map_option VStr (away_participants s))
     @ dump_field ''event_name'' (map_option VStr (event_name s))
     @ [(''is_master'', VBool (is_master s)), (''source'', VStr (sc_source s)),
        (''date'', VStr (sc_date s))]
     @ dump_field ''time'' (map_option VStr (sc_time s))
     @ dump_field ''location'' (map_option VStr (location s))"

text \<open>
  \<^verbatim>\<open>
  def to_dict(self):
      result = super().to_dict()
      if self.home_participants:
          try:
              result['home_participants'] = json.loads(self.home_participants)
          except:
              pass
      if self.away_participants:
          try:
              result['away_participants'] = json.loads(self.away_participants)
          except:
              pass
      try:
          if self.date:
              date_str = self.date
              time_str = self.time or "00:00"
              if 'T' in date_str:
                  dt = datetime.fromisoformat(date_str.replace('Z', '+00:00'))
              else:
                  formats = ["%Y-%m-%d", "%m/%d/%Y", "%d/%m/%Y"]
                  for fmt in formats:
                      try:
                          dt = datetime.strptime(f"{date_str} {time_str}", f"{fmt} %H:%M")
                          break
                      except:
                          continue
                  else:
                      dt = None
              if dt:
                  result['formatted_datetime'] = dt.isoformat()
      except:
          pass
      return result
  \<close>
  The \<open>datetime\<close> library is a parameter: \<open>fromisoformat s\<close> and \<open>strptime s fmt\<close>
  give the ISO text of the parsed instant, and \<open>None\<close> when the parser raises.
\<close>

definition parsed_participants :: "(string \<Rightarrow> json option) \<Rightarrow> string \<Rightarrow> string option \<Rightarrow> row \<Rightarrow> row" where
  "parsed_participants loads k field result =
     (case field of
        None \<Rightarrow> result
      | Some text \<Rightarrow>
          if text = [] then result
          else (case loads text of
                  Some j \<Rightarrow> AList.update k (VJson j) result
                | None \<Rightarrow> result))"

fun first_format :: "(string \<Rightarrow> string \<Rightarrow> string option) \<Rightarrow> string \<Rightarrow> string list \<Rightarrow> string option" where
  "first_format strptime text [] = None"
| "first_format strptime text (fmt # fmts) =
     (case strptime text (fmt @ '' %H:%M'') of
        Some formatted \<Rightarrow> Some formatted
      | None \<Rightarrow> first_format strptime text fmts)"

definition formatted_datetime ::
  "(string \<Rightarrow> string option) \<Rightarrow> (string \<Rightarrow> string \<Rightarrow> string option) \<Rightarrow> schedule \<Rightarrow> string option" where
  "formatted_datetime fromisoformat strptime s =
     (if sc_date s = [] then None
      else
        (let date_str = sc_date s;
             time_str = (case sc_time s of
                           None \<Rightarrow> ''00:00''
                         | Some t \<Rightarrow> if t = [] then ''00:00'' else t)
         in if CHR ''T'' \<in> set date_str
            then fromisoformat (replace_chr (CHR ''Z'') ''+00:00'' date_str)
            else first_format strptime (date_str @ '' '' @ time_str)
                   [''%Y-%m-%d'', ''%m/%d/%Y'', ''%d/%m/%Y'']))"

definition to_dict ::
  "(string \<Rightarrow> json option) \<Rightarrow> (string \<Rightarrow> string option) \<Rightarrow> (string \<Rightarrow> string \<Rightarrow> string option)
     \<Rightarrow> schedule \<Rightarrow> row" where
  "to_dict loads fromisoformat strptime s =
     (let result = Schedule_dump s;
          result = parsed_participants loads ''home_participants'' (home_participants s) result;
          result = parsed_participants loads ''away_participants'' (away_participants s) result
      in case formatted_datetime fromisoformat strptime s of
           None \<Rightarrow> result
         | Some formatted \<Rightarrow> AList.update ''formatted_datetime'' (VStr formatted) result)"

section \<open>Sample data\<close>

text \<open>
  Concrete inputs for the examples below. \<open>plain_model\<close> is a model class that accepts
  every row and keeps it as it is; it stands for the models whose fields play no part
  in the operation at hand (\<open>Recruit\<close>, \<open>Team\<close>, \<open>User\<close>, \<open>EmailQueue\<close>).
\<close>

definition plain_model :: "row model" where
  "plain_model =
     \<lparr>construct = Inr,
      model_dump = filter (\<lambda>(k, v). v \<noteq> VNull),
      id_annotation = Some (AnnOptional AnnInt)\<rparr>"



text \<open>
  Instances of the library parameters for the examples: they agree with MD5 and with the
  \<open>json\<close> module on the texts the examples use.
\<close>

definition sample_md5 :: "string \<Rightarrow> string" where
  "sample_md5 s = (if s = ''abc'' then ''900150983cd24fb0d6963f7d28e17f72'' else s)"

definition sample_dumps :: "json \<Rightarrow> string" where
  \<open>sample_dumps j =
     (if j = JObj [] then ''{}''
      else if j = JObj [(''grade'', JInt 1)] then ''{"grade": 1}''
      else if j = JArr [] then ''[]''
      else ''null'')\<close>

definition sample_loads :: "string \<Rightarrow> json option" where
  \<open>sample_loads s =
     (if s = ''{}'' then Some (JObj [])
      else if s = ''{"grade": 1}'' then Some (JObj [(''grade'', JInt 1)])
      else if s = ''[]'' then Some (JArr [])
      else if s = ''null'' then Some JNull
      else None)\<close>

definition cache_world :: world where
  "cache_world =
     \<lparr>store = \<lparr>tables = (\<lambda>t. []), serial = (\<lambda>t. Some 1)\<rparr>, trace = []\<rparr>"

definition queue_world :: world where
  "queue_world =
     \<lparr>store =
        \<lparr>tables = (\<lambda>t. [])
           (''email_queue'' :=
              [[(''id'', VInt 1), (''status'', VStr ''FAILED''), (''processed_at'', VTime 3),
                (''error_message'', VStr ''boom''), (''updated_at'', VTime 3)]]),
         serial = (\<lambda>t. Some 2)\<rparr>,
      trace = []\<rparr>"

definition team_world :: world where
  "team_world =
     \<lparr>store =
        \<lparr>tables = (\<lambda>t. [])
           (''teams'' :=
              [[(''id'', VInt 1), (''name'', VStr ''Lake City''),
                (''normalized_name'', VStr ''lake_city'')],
               [(''id'', VInt 2), (''name'', VStr ''Los Cerros''),
                (''normalized_name'', VStr ''los_cerros'')]],
            ''team_aliases'' :=
              [[(''id'', VInt 5), (''team_id'', VInt 2), (''alias'', VStr ''LC''),
                (''created_at'', VTime 3), (''updated_at'', VTime 3)]]),
         serial = (\<lambda>t. Some 6)\<rparr>,
      trace = []\<rparr>"

text \<open>
  A store that refuses exactly the statements that bind a \<open>dict\<close>, and a cache
  table that holds an entry for the digest of "abc".
\<close>

definition no_codec :: fault where
  "no_codec q d =
     (if binds_dict q
      then Some (StorageError ''invalid input for query argument (expected str, got dict)'')
      else None)"

definition cached_world :: world where
  \<open>cached_world =
     \<lparr>store =
        \<lparr>tables = (\<lambda>t. [])
           (''gpt_cache'' :=
              [[(''id'', VInt 1), (''content_hash'', VStr ''900150983cd24fb0d6963f7d28e17f72''),
                (''email'', VNull), (''result_json'', VStr ''{}''),
                (''created_at'', VTime 3), (''updated_at'', VTime 3)]]),
         serial = (\<lambda>t. Some 2)\<rparr>,
      trace = []\<rparr>\<close>

text \<open>The attribute \<open>id\<close> of an instance of \<open>plain_model\<close>.\<close>

definition plain_id :: "row \<Rightarrow> string" where
  "plain_id r =
     (case map_of r ''id'' of
        Some (VStr s) \<Rightarrow> s
      | _ \<Rightarrow> [])"

definition user_world :: world where
  "user_world =
     \<lparr>store = \<lparr>tables = (\<lambda>t. []), serial = (\<lambda>t. None)\<rparr>, trace = []\<rparr>"

definition settings_fail :: fault where
  "settings_fail q d =
     (case q of
        Insert t r \<Rightarrow> if t = ''user_settings'' then Some (StorageError ''forced'') else None
      | _ \<Rightarrow> None)"

definition sample_user :: row where
  "sample_user =
     [(''created_at'', VTime 4), (''updated_at'', VTime 4), (''id'', VStr ''u1''),
      (''email'', VStr ''coach@club.org''), (''is_new_user'', VInt 1),
      (''is_admin'', VBool False), (''has_consented'', VBool False),
      (''has_completed_setup'', VBool False)]"

definition sample_settings :: user_settings where
  "sample_settings =
     \<lparr>us_user_id = ''pending'', selected_folders = None, fetch_frequency = ''manual'',
      batch_process_enabled = False\<rparr>"




definition sample_fromisoformat :: "string \<Rightarrow> string option" where
  "sample_fromisoformat s = (if s = ''2024-05-01T10:00:00'' then Some s else None)"

definition sample_strptime :: "string \<Rightarrow> string \<Rightarrow> string option" where
  "sample_strptime text fmt =
     (if text = ''2024-05-01 00:00'' \<and> fmt = ''%Y-%m-%d %H:%M''
      then Some ''2024-05-01T00:00:00'' else None)"

definition sample_schedule :: schedule where
  "sample_schedule =
     \<lparr>created_at = Some 3, updated_at = Some 3, sc_id = Some 7, sc_user_id = ''u1'',
      sc_recruit_id = Some 1, recruit_email = None, home_team = Some ''Lake City'',
      away_team = None, home_participants = Some ''not json'', away_participants = Some ''[]'',
      event_name = None, is_master = False, sc_source = ''manual'', sc_date = ''2024-05-01'',
      sc_time = None, location = None\<rparr>"

section \<open>Properties of the normalisation\<close>

lemma lower_char_not_upper: "\<not> is_upper (lower_char c)"
proof (cases "is_upper c")
  case False
  then show ?thesis by (simp add: lower_char_def)
next
  case True
  have lt: "(of_char c :: nat) < 256" by simp
  from True lt show ?thesis
    by (auto simp add: lower_char_def is_upper_def Let_def)
qed

lemma lower_char_fixed: "\<not> is_upper c \<Longrightarrow> lower_char c = c"
  by (simp add: lower_char_def)

lemma underscore_settled: "settled (CHR ''_'')"
  by (simp add: settled_def is_upper_def)

lemma replace_chr_fixed: "old \<notin> set s \<Longrightarrow> replace_chr old new s = s"
  by (induction s) (auto simp add: replace_chr_def)

lemma set_replace_chr: "set (replace_chr old new s) \<subseteq> (set s - {old}) \<union> set new"
  by (induction s) (auto simp add: replace_chr_def)

lemma lower_fixed: "\<forall>c\<in>set s. \<not> is_upper c \<Longrightarrow> lower s = s"
  by (induction s) (simp_all add: lower_def lower_char_fixed)

lemma settled_fixed:
  assumes "\<forall>c\<in>set s. settled c"
  shows "normalize_name s = s"
proof -
  from assms have up: "\<forall>c\<in>set s. \<not> is_upper c"
    and sp: "CHR '' '' \<notin> set s" and hy: "CHR ''-'' \<notin> set s" and pe: "CHR ''.'' \<notin> set s"
    by (auto simp add: settled_def)
  show ?thesis
    by (simp add: normalize_name_def lower_fixed [OF up] replace_chr_fixed sp hy pe)
qed

lemma normalize_name_settled: "\<forall>c\<in>set (normalize_name s). settled c"
proof (cases "s = []")
  case True
  then show ?thesis by (simp add: normalize_name_def)
next
  case False
  let ?a = "lower s"
  let ?b = "replace_chr (CHR '' '') ''_'' ?a"
  let ?c = "replace_chr (CHR ''-'') ''_'' ?b"
  let ?d = "replace_chr (CHR ''.'') [] ?c"
  have a: "\<forall>c\<in>set ?a. \<not> is_upper c"
    by (simp add: lower_def lower_char_not_upper)
  have us: "\<not> is_upper (CHR ''_'')" by (simp add: is_upper_def)
  have b: "\<forall>c\<in>set ?b. \<not> is_upper c \<and> c \<noteq> CHR '' ''"
    using set_replace_chr [of "CHR '' ''" "''_''" ?a] a us by auto
  have c: "\<forall>c\<in>set ?c. \<not> is_upper c \<and> c \<noteq> CHR '' '' \<and> c \<noteq> CHR ''-''"
    using set_replace_chr [of "CHR ''-''" "''_''" ?b] b us by auto
  have d: "\<forall>c\<in>set ?d. settled c"
    using set_replace_chr [of "CHR ''.''" "[]" ?c] c by (auto simp add: settled_def)
  from False d show ?thesis by (simp add: normalize_name_def)
qed

text \<open>
  C5. \<open>_normalize_name\<close> maps "FC United-Youth." to "fc_united_youth", and it is
  idempotent: normalising a normalised name changes nothing, for every string.
\<close>

theorem normalize_name_idempotent:
  "normalize_name ''FC United-Youth.'' = ''fc_united_youth''
   \<and> (\<forall>s. normalize_name (normalize_name s) = normalize_name s)"
proof
  show "normalize_name ''FC United-Youth.'' = ''fc_united_youth''"
    by code_simp
  show "\<forall>s. normalize_name (normalize_name s) = normalize_name s"
    using settled_fixed [OF normalize_name_settled] by simp
qed

text \<open>
  C6. The validator of the Team model and \<open>_normalize_name\<close> are compared on the name
  "FC United-Youth." with no \<open>normalized_name\<close> given: the validator lower-cases and
  replaces spaces only, so the hyphen and the period stay, while \<open>_normalize_name\<close>
  turns the hyphen into an underscore and drops the period.
\<close>

theorem set_normalized_name_differs:
  "set_normalized_name VNull [(''name'', VStr ''FC United-Youth.'')] = VStr ''fc_united-youth.''
   \<and> normalize_name ''FC United-Youth.'' = ''fc_united_youth''"
  by code_simp

section \<open>Properties of the statement runner\<close>



lemma started_logged: "started (evs @ logged q e) = started evs"
  by (simp add: started_def logged_def split: error.splits)

lemma execute_query_cases:
  "execute_query F query fetch w =
     (case F query (store w) of
        Some e \<Rightarrow> (Inl e, w\<lparr>trace := trace w @ logged query e\<rparr>)
      | None \<Rightarrow>
          (case run query (store w) of
             (rows, d) \<Rightarrow> (Inr (if fetch then Some rows else None), w\<lparr>store := d\<rparr>)))"
  by (simp add: execute_query_def acquire_def logged_def split: option.splits error.splits)

lemma execute_query_refused:
  "F q (store w) = Some e \<Longrightarrow>
   execute_query F q fetch w = (Inl e, w\<lparr>trace := trace w @ logged q e\<rparr>)"
  by (simp add: execute_query_cases)

lemma execute_query_accepted:
  "F q (store w) = None \<Longrightarrow>
   execute_query F q True w = (Inr (Some (fst (run q (store w)))), w\<lparr>store := snd (run q (store w))\<rparr>)"
  by (simp add: execute_query_cases split: prod.splits)

section \<open>Properties of the cascade delete\<close>

lemma execute_query_select:
  "execute_query F (Select t c) fetch w = (res, w') \<Longrightarrow>
     store w' = store w \<and> started (trace w') = started (trace w)"
  by (auto simp add: execute_query_cases started_logged split: option.splits)

lemma get_by_id_store:
  "get_by_id F svc v w = (res, w') \<Longrightarrow>
     store w' = store w \<and> started (trace w') = started (trace w)"
  unfolding get_by_id_def
  by (auto split: prod.splits sum.splits if_splits dest: execute_query_select)










section \<open>Properties of the content cache\<close>

lemma gpt_cache_service_sel:
  "table_name (gpt_cache_service loads now) = ''gpt_cache''"
  "model_class (gpt_cache_service loads now) = GPTCache_model loads now"
  by (simp_all add: gpt_cache_service_def)

lemma GPTCache_kwargs:
  "GPTCache loads now [(''content_hash'', VStr h), (''email'', py_opt_str email),
        (''result_json'', VJson (JObj result))]
   = Inr \<lparr>created_at = Some now, updated_at = Some now, gc_id = None, content_hash = h,
          gc_email = email, result_json = result\<rparr>"
  by (cases email)
     (simp_all add: GPTCache_def opt_time_def opt_int_def req_str_def opt_str_def
       result_json_field_def validate_result_json_def as_dict_def py_opt_str_def)

lemma create_data_new:
  "create_data (gpt_cache_service loads now)
     \<lparr>created_at = Some now, updated_at = Some now, gc_id = None, content_hash = h,
          gc_email = email, result_json = result\<rparr> = new_entry now h result email"
  by (cases email)
     (simp_all add: create_data_def gpt_cache_service_def GPTCache_model_def GPTCache_dump_def
       dump_timestamps_def dump_field_def new_entry_def)

text \<open>The insert of a new cache entry binds the result as it is, a \<open>dict\<close>.\<close>

lemma new_entry_binds_dict: "binds_dict (Insert ''gpt_cache'' (new_entry now h result email))"
  by (simp add: binds_dict_def new_entry_def)

text \<open>The update of an entry binds the result as JSON text.\<close>

lemma upsert_query_binds_text: "\<not> binds_dict (upsert_query dumps now h result email)"
  by (cases email) (simp_all add: binds_dict_def upsert_query_def py_opt_str_def)

lemma get_by_content_hash_cases:
  "get_by_content_hash F loads now h w =
     (case F (Select ''gpt_cache'' [(''content_hash'', VStr h)]) (store w) of
        Some e \<Rightarrow>
          (Inl e, w\<lparr>trace := trace w @ logged (Select ''gpt_cache'' [(''content_hash'', VStr h)]) e\<rparr>)
      | None \<Rightarrow>
          (case entries h w of
             [] \<Rightarrow> (Inr None, w)
           | r # rs \<Rightarrow>
               (case GPTCache loads now r of
                  Inl e \<Rightarrow> (Inl e, w)
                | Inr x \<Rightarrow> (Inr (Some x), w))))"
  by (simp add: get_by_content_hash_def execute_query_cases entries_def no_results_def
      built_def first_row_def GPTCache_model_def split: option.splits list.splits sum.splits)

lemma create_or_update_insert_path:
  assumes "F (Select ''gpt_cache'' [(''content_hash'', VStr (md5 content))]) (store w) = None"
    and "entries (md5 content) w = []"
  shows "create_or_update F md5 dumps loads now content result email w
         = create F (gpt_cache_service loads now)
             \<lparr>created_at = Some now, updated_at = Some now, gc_id = None,
              content_hash = md5 content, gc_email = email, result_json = result\<rparr> w"
  using assms
  by (simp add: create_or_update_def generate_hash_def get_by_content_hash_cases GPTCache_kwargs)

lemma create_or_update_update_path:
  assumes "F (Select ''gpt_cache'' [(''content_hash'', VStr (md5 content))]) (store w) = None"
    and "entries (md5 content) w = r # rs" and "GPTCache loads now r = Inr g"
  shows "create_or_update F md5 dumps loads now content result email w
         = (case execute_query F (upsert_query dumps now (md5 content) result email) True w of
              (Inl e, w2) \<Rightarrow> (Inl e, w2)
            | (Inr results, w2) \<Rightarrow> (built (GPTCache_model loads now) results, w2))"
  using assms
  by (simp add: create_or_update_def generate_hash_def get_by_content_hash_cases)

text \<open>
  With no entry for the hash, \<open>create_or_update\<close> on a store that refuses a bound
  \<open>dict\<close> raises, and the store is as it was: the lookup is refused, or it finds
  nothing and the insert is refused.
\<close>

lemma create_or_update_unencoded:
  assumes "\<And>q d. binds_dict q \<Longrightarrow> F q d \<noteq> None"
    and "entries (md5 content) w = []"
    and "create_or_update F md5 dumps loads now content result email w = (x, w')"
  shows "isl x \<and> store w' = store w \<and> entries (md5 content) w' = []"
proof -
  let ?sel = "Select ''gpt_cache'' [(''content_hash'', VStr (md5 content))]"
  let ?ins = "Insert ''gpt_cache'' (new_entry now (md5 content) result email)"
  have st: "isl x \<and> store w' = store w"
  proof (cases "F ?sel (store w)")
    case (Some e)
    with assms(3) show ?thesis
      by (auto simp add: create_or_update_def generate_hash_def get_by_content_hash_cases)
  next
    case None
    from assms(1) [OF new_entry_binds_dict] obtain e where e: "F ?ins (store w) = Some e"
      by blast
    from assms(3) show ?thesis
      unfolding create_or_update_insert_path [of F md5 content w, OF None assms(2)]
      by (auto simp add: create_def create_data_new gpt_cache_service_sel
          execute_query_refused [of F _ _ e] e)
  qed
  with assms(2) show ?thesis by (simp add: entries_def)
qed

lemma opt_time_isl: "isl (opt_time now r k) = isl (opt_time 0 r k)"
  by (simp add: opt_time_def split: option.splits val.splits)

lemma GPTCache_isr:
  "(\<exists>g. GPTCache loads now r = Inr g) =
     (\<not> isl (opt_time now r ''created_at'') \<and> \<not> isl (opt_time now r ''updated_at'')
      \<and> \<not> isl (opt_int r ''id'') \<and> \<not> isl (req_str r ''content_hash'')
      \<and> \<not> isl (opt_str r ''email'') \<and> \<not> isl (result_json_field loads r))"
  by (simp add: GPTCache_def split: sum.splits)

lemma valid_entry_iff:
  "valid_entry loads r =
     (\<not> isl (opt_time 0 r ''created_at'') \<and> \<not> isl (opt_time 0 r ''updated_at'')
      \<and> \<not> isl (opt_int r ''id'') \<and> \<not> isl (req_str r ''content_hash'')
      \<and> \<not> isl (opt_str r ''email'') \<and> \<not> isl (result_json_field loads r))"
  by (simp add: valid_entry_def GPTCache_def split: sum.splits)

lemma GPTCache_now:
  "(\<exists>g. GPTCache loads now r = Inr g) = valid_entry loads r"
  unfolding GPTCache_isr valid_entry_iff
  by (simp add: opt_time_isl [of now])

lemma matches_hash: "matches [(''content_hash'', VStr h)] r = (map_of r ''content_hash'' = Some (VStr h))"
  by (simp add: matches_def)

lemma upsert_keeps_hash:
  "map_of (assign [(''result_json'', a), (''email'', b), (''updated_at'', c)] r) ''content_hash''
   = map_of r ''content_hash''"
  by (simp add: update_conv')

lemma filter_map_assign:
  assumes "\<And>r. P (f r) = P r"
  shows "filter P (map (\<lambda>r. if P r then f r else r) xs) = map f (filter P xs)"
  using assms by (induction xs) simp_all

lemma entries_update:
  "entries h (w\<lparr>store := snd (run (upsert_query dumps now h result email) (store w))\<rparr>)
   = map (assign [(''result_json'', VStr (dumps (JObj result))), (''email'', py_opt_str email),
                  (''updated_at'', VTime now)]) (entries h w)"
proof -
  let ?cvs = "[(''result_json'', VStr (dumps (JObj result))), (''email'', py_opt_str email),
                  (''updated_at'', VTime now)]"
  have keep: "\<And>r. matches [(''content_hash'', VStr h)] (assign ?cvs r)
                = matches [(''content_hash'', VStr h)] r"
    by (simp only: matches_hash upsert_keeps_hash)
  show ?thesis
    using filter_map_assign [of "matches [(''content_hash'', VStr h)]" "assign ?cvs", OF keep]
    by (simp add: entries_def upsert_query_def)
qed

lemma table_update:
  "length (tables (snd (run (upsert_query dumps now h result email) d)) ''gpt_cache'')
   = length (tables d ''gpt_cache'')"
  by (simp add: upsert_query_def)

lemma valid_updated:
  assumes "valid_entry loads r" and "loads (dumps (JObj result)) = Some (JObj result)"
  shows "valid_entry loads (assign [(''result_json'', VStr (dumps (JObj result))),
            (''email'', py_opt_str email), (''updated_at'', VTime now)] r)"
  using assms unfolding valid_entry_iff
  by (cases email)
     (simp_all add: opt_time_def opt_int_def req_str_def opt_str_def
       result_json_field_def validate_result_json_def as_dict_def update_conv' py_opt_str_def)

lemma GPTCache_updated:
  assumes "valid_entry loads r" and "loads (dumps (JObj result)) = Some (JObj result)"
  shows "\<exists>g. GPTCache loads now (assign [(''result_json'', VStr (dumps (JObj result))),
            (''email'', py_opt_str email), (''updated_at'', VTime t)] r) = Inr g
           \<and> result_json g = result \<and> gc_email g = email \<and> updated_at g = Some t"
proof -
  let ?r = "assign [(''result_json'', VStr (dumps (JObj result))),
            (''email'', py_opt_str email), (''updated_at'', VTime t)] r"
  from assms have "valid_entry loads ?r" by (rule valid_updated)
  then obtain g where g: "GPTCache loads now ?r = Inr g"
    using GPTCache_now by blast
  have j: "result_json_field loads ?r = Inr result"
    using assms(2)
    by (simp add: result_json_field_def validate_result_json_def as_dict_def update_conv')
  have m: "opt_str ?r ''email'' = Inr email"
    by (cases email) (simp_all add: opt_str_def update_conv' py_opt_str_def)
  have u: "opt_time now ?r ''updated_at'' = Inr (Some t)"
    by (simp add: opt_time_def update_conv')
  from g j m u have "result_json g = result \<and> gc_email g = email \<and> updated_at g = Some t"
    by (auto simp add: GPTCache_def split: sum.splits)
  with g show ?thesis by blast
qed

text \<open>
  With one readable entry for the hash, on a store that accepts the lookup and the
  update, \<open>create_or_update\<close> rewrites that entry: it holds the result as JSON text,
  the email tag and the time of the call, no row is added, and the call returns the
  entry with the result when the result survives \<open>dumps\<close> and \<open>loads\<close>.
\<close>

lemma create_or_update_overwrites:
  assumes "F (Select ''gpt_cache'' [(''content_hash'', VStr (md5 content))]) (store w) = None"
    and "F (upsert_query dumps now (md5 content) result email) (store w) = None"
    and "entries (md5 content) w = [r]" and "valid_entry loads r"
    and "create_or_update F md5 dumps loads now content result email w = (x, w')"
  shows "entries (md5 content) w'
           = [assign [(''result_json'', VStr (dumps (JObj result))), (''email'', py_opt_str email),
                      (''updated_at'', VTime now)] r]
       \<and> length (tables (store w') ''gpt_cache'') = length (tables (store w) ''gpt_cache'')
       \<and> (loads (dumps (JObj result)) = Some (JObj result) \<longrightarrow>
            (\<exists>g. x = Inr g \<and> result_json g = result \<and> gc_email g = email
               \<and> updated_at g = Some now))"
proof -
  let ?q = "upsert_query dumps now (md5 content) result email"
  let ?r = "assign [(''result_json'', VStr (dumps (JObj result))), (''email'', py_opt_str email),
                      (''updated_at'', VTime now)] r"
  from assms(4) obtain g0 where g0: "GPTCache loads now r = Inr g0"
    using GPTCache_now by blast
  have rows: "fst (run ?q (store w)) = [?r]"
    using assms(3) by (simp add: upsert_query_def entries_def del: assign.simps)
  have call: "create_or_update F md5 dumps loads now content result email w
        = (GPTCache loads now ?r, w\<lparr>store := snd (run ?q (store w))\<rparr>)"
    unfolding create_or_update_update_path [of F md5 content w r "[]" loads now g0, OF assms(1,3) g0]
    using rows
    by (simp add: execute_query_accepted [of F ?q w] assms(2) built_def first_row_def
        GPTCache_model_def del: run.simps assign.simps)
  from call assms(5) have x: "x = GPTCache loads now ?r"
    and w': "w' = w\<lparr>store := snd (run ?q (store w))\<rparr>"
    by simp_all
  have a: "entries (md5 content) w' = [?r]"
    unfolding w' entries_update using assms(3) by simp
  have b: "length (tables (store w') ''gpt_cache'') = length (tables (store w) ''gpt_cache'')"
    unfolding w' by (simp add: table_update del: run.simps)
  have c: "loads (dumps (JObj result)) = Some (JObj result) \<longrightarrow>
            (\<exists>g. x = Inr g \<and> result_json g = result \<and> gc_email g = email
               \<and> updated_at g = Some now)"
    unfolding x using GPTCache_updated [of loads r dumps result now email now] assms(4) by blast
  from a b c show ?thesis by blast
qed

text \<open>
  C2. Two calls of \<open>create_or_update\<close> with the same content, on an empty cache
  table and a store that refuses exactly the statements that bind a \<open>dict\<close>: the
  insert of the first call sends \<open>result_json\<close> as the \<open>dict\<close> it was given, so
  the store refuses it and the call raises; nothing is stored, the second call meets
  the same empty table and raises too, and no entry for the hash exists afterwards.
  On the same store the update path works: with an entry for the hash present, the
  call sends the result as JSON text and the entry holds it afterwards.
\<close>

theorem create_or_update_insert_unencoded:
  "create_data (gpt_cache_service sample_loads 5)
       \<lparr>created_at = Some 5, updated_at = Some 5, gc_id = None,
        content_hash = ''900150983cd24fb0d6963f7d28e17f72'', gc_email = None, result_json = []\<rparr>
     = [(''created_at'', VTime 5), (''updated_at'', VTime 5),
        (''content_hash'', VStr ''900150983cd24fb0d6963f7d28e17f72''),
        (''result_json'', VJson (JObj []))]
   \<and> fst (create_or_update no_codec sample_md5 sample_dumps sample_loads 5 ''abc'' [] None
            cache_world)
     = Inl (StorageError ''invalid input for query argument (expected str, got dict)'')
   \<and> fst (create_or_update no_codec sample_md5 sample_dumps sample_loads 6 ''abc''
            [(''grade'', JInt 1)] (Some ''coach@club.org'')
            (snd (create_or_update no_codec sample_md5 sample_dumps sample_loads 5 ''abc'' [] None
                    cache_world)))
     = Inl (StorageError ''invalid input for query argument (expected str, got dict)'')
   \<and> entries (generate_hash sample_md5 ''abc'')
        (snd (create_or_update no_codec sample_md5 sample_dumps sample_loads 6 ''abc''
            [(''grade'', JInt 1)] (Some ''coach@club.org'')
            (snd (create_or_update no_codec sample_md5 sample_dumps sample_loads 5 ''abc'' [] None
                    cache_world)))) = []
   \<and> tables (store (snd (create_or_update no_codec sample_md5 sample_dumps sample_loads 6 ''abc''
            [(''grade'', JInt 1)] (Some ''coach@club.org'')
            (snd (create_or_update no_codec sample_md5 sample_dumps sample_loads 5 ''abc'' [] None
                    cache_world))))) ''gpt_cache'' = []
   \<and> fst (create_or_update no_codec sample_md5 sample_dumps sample_loads 6 ''abc''
            [(''grade'', JInt 1)] (Some ''coach@club.org'') cached_world)
     = Inr \<lparr>created_at = Some 3, updated_at = Some 6, gc_id = Some 1,
            content_hash = ''900150983cd24fb0d6963f7d28e17f72'',
            gc_email = Some ''coach@club.org'', result_json = [(''grade'', JInt 1)]\<rparr>
   \<and> tables (store (snd (create_or_update no_codec sample_md5 sample_dumps sample_loads 6 ''abc''
            [(''grade'', JInt 1)] (Some ''coach@club.org'') cached_world))) ''gpt_cache''
     = [[(''id'', VInt 1), (''content_hash'', VStr ''900150983cd24fb0d6963f7d28e17f72''),
         (''email'', VStr ''coach@club.org''),
         (''result_json'', VStr (sample_dumps (JObj [(''grade'', JInt 1)]))),
         (''created_at'', VTime 3), (''updated_at'', VTime 6)]]"
  by (simp add: create_or_update_def get_by_content_hash_def create_def create_data_def
      execute_query_cases no_codec_def binds_dict_def generate_hash_def sample_md5_def
      sample_dumps_def sample_loads_def cache_world_def cached_world_def entries_def
      matches_def no_results_def built_def first_row_def logged_def
      gpt_cache_service_def GPTCache_model_def GPTCache_dump_def GPTCache_def
      dump_timestamps_def dump_field_def is_id_auto_assigned_def
      opt_time_def opt_int_def req_str_def opt_str_def result_json_field_def
      validate_result_json_def as_dict_def py_opt_str_def upsert_query_def)

section \<open>Properties of the generic update\<close>









section \<open>Properties of the queue status update\<close>

lemma status_cells_read:
  "map_of (assign (status_cells stamp now st msg) r) ''status'' = Some (VStr (status_value st))"
  "map_of (assign (status_cells stamp now st msg) r) ''processed_at'' = Some (processed_at_of stamp st)"
  "map_of (assign (status_cells stamp now st msg) r) ''error_message'' = Some (py_opt_str msg)"
  "map_of (assign (status_cells stamp now st msg) r) ''updated_at'' = Some (VTime now)"
  by (simp_all add: status_cells_def update_conv')

lemma update_status_store:
  assumes "F (update_status_query stamp now qid st msg) (store w) = None"
  shows "store (snd (update_status F EmailQueue stamp now qid st msg w))
         = snd (run (update_status_query stamp now qid st msg) (store w))"
  using assms
  by (simp add: update_status_def execute_query_cases split: prod.splits sum.splits)

text \<open>
  C10, as stated, at a concrete input. A failed queue item is put back to \<open>QUEUED\<close>
  with a message: \<open>processed_at\<close> becomes null, but \<open>error_message\<close> is the
  supplied message, not null.
\<close>

theorem update_status_error_message_kept:
  "tables (store (snd (update_status healthy plain_model 8 9 1 QUEUED (Some ''retry later'')
       queue_world))) ''email_queue''
   = [[(''id'', VInt 1), (''status'', VStr ''QUEUED''), (''processed_at'', VNull),
       (''error_message'', VStr ''retry later''), (''updated_at'', VTime 9)]]"
  by (simp add: update_status_store healthy_def update_status_query_def status_cells_def
      processed_at_of_def py_opt_str_def queue_world_def matches_def)

text \<open>
  C10, amended. Every \<open>update_status\<close> that the store accepts overwrites both cells in
  every row with the id: \<open>processed_at\<close> is the current time when the new status is
  \<open>COMPLETED\<close> or \<open>FAILED\<close> and null otherwise; \<open>error_message\<close> is the supplied
  message, whatever the status, and null when none is supplied. So a non-terminal status
  written without a message erases both.
\<close>

theorem update_status_overwrites:
  assumes "F (update_status_query stamp now qid st msg) (store w) = None"
    and "w' = snd (update_status F EmailQueue stamp now qid st msg w)"
  shows "tables (store w') ''email_queue'' =
           map (\<lambda>r. if matches [(''id'', VInt qid)] r
                     then assign (status_cells stamp now st msg) r else r)
               (tables (store w) ''email_queue'')
       \<and> (\<forall>r. map_of (assign (status_cells stamp now st msg) r) ''processed_at''
                  = Some (if st = COMPLETED \<or> st = FAILED then VTime stamp else VNull)
              \<and> map_of (assign (status_cells stamp now st msg) r) ''error_message''
                  = Some (case msg of None \<Rightarrow> VNull | Some m \<Rightarrow> VStr m))
       \<and> ((st = QUEUED \<or> st = PROCESSING) \<and> msg = None \<longrightarrow>
            (\<forall>r. map_of (assign (status_cells stamp now st msg) r) ''processed_at'' = Some VNull
               \<and> map_of (assign (status_cells stamp now st msg) r) ''error_message'' = Some VNull))"
proof -
  have a: "tables (store w') ''email_queue'' =
           map (\<lambda>r. if matches [(''id'', VInt qid)] r
                     then assign (status_cells stamp now st msg) r else r)
               (tables (store w) ''email_queue'')"
    using assms(1) unfolding assms(2)
    by (simp add: update_status_store update_status_query_def)
  have b: "\<forall>r. map_of (assign (status_cells stamp now st msg) r) ''processed_at''
                  = Some (if st = COMPLETED \<or> st = FAILED then VTime stamp else VNull)
              \<and> map_of (assign (status_cells stamp now st msg) r) ''error_message''
                  = Some (case msg of None \<Rightarrow> VNull | Some m \<Rightarrow> VStr m)"
    by (simp add: status_cells_read processed_at_of_def py_opt_str_def)
  have c: "(st = QUEUED \<or> st = PROCESSING) \<and> msg = None \<longrightarrow>
            (\<forall>r. map_of (assign (status_cells stamp now st msg) r) ''processed_at'' = Some VNull
               \<and> map_of (assign (status_cells stamp now st msg) r) ''error_message'' = Some VNull)"
    by (auto simp add: status_cells_read processed_at_of_def py_opt_str_def)
  from a b c show ?thesis by blast
qed

theorem update_status_overwrites_witness:
  "healthy (update_status_query 8 9 1 PROCESSING None) (store queue_world) = None
   \<and> tables (store (snd (update_status healthy plain_model 8 9 1 PROCESSING None queue_world)))
        ''email_queue''
     = [[(''id'', VInt 1), (''status'', VStr ''PROCESSING''), (''processed_at'', VNull),
         (''error_message'', VNull), (''updated_at'', VTime 9)]]"
proof -
  have h: "healthy (update_status_query 8 9 1 PROCESSING None) (store queue_world) = None"
    by (simp add: healthy_def)
  from update_status_overwrites [where F = healthy and stamp = 8 and now = 9 and qid = 1
      and st = PROCESSING and msg = None and w = queue_world and EmailQueue = plain_model,
      OF h refl]
  have "tables (store (snd (update_status healthy plain_model 8 9 1 PROCESSING None queue_world)))
        ''email_queue''
     = map (\<lambda>r. if matches [(''id'', VInt 1)] r
                     then assign (status_cells 8 9 PROCESSING None) r else r)
               (tables (store queue_world) ''email_queue'')"
    by blast
  with h show ?thesis
    by (simp add: queue_world_def matches_def status_cells_def processed_at_of_def py_opt_str_def)
qed

section \<open>Properties of \<open>add_alias\<close>\<close>

lemma get_by_id_accepted:
  assumes "F (Select (table_name svc) [(''id'', v)]) (store w) = None"
  shows "snd (get_by_id F svc v w) = w"
  using assms
  by (simp add: get_by_id_def execute_query_accepted split: sum.splits)

lemma get_by_id_found:
  assumes "F (Select (table_name svc) [(''id'', v)]) (store w) = None"
    and "filter (matches [(''id'', v)]) (tables (store w) (table_name svc)) = r # rs"
    and "construct (model_class svc) r = Inr x"
  shows "get_by_id F svc v w = (Inr (Some x), w)"
  using assms
  by (simp add: get_by_id_def execute_query_accepted no_results_def built_def first_row_def)

lemma get_by_alias_cases:
  assumes "get_by_alias F now a w = (r, wa)"
  shows "store wa = store w
       \<and> (r = Inr None \<longrightarrow>
            filter (matches [(''alias'', VStr a)]) (tables (store w) ''team_aliases'') = [])"
  using assms
  by (auto simp add: get_by_alias_def execute_query_cases no_results_def
      split: option.splits sum.splits if_splits)

lemma get_by_alias_found:
  assumes "F (Select ''team_aliases'' [(''alias'', VStr a)]) (store w) = None"
    and "filter (matches [(''alias'', VStr a)]) (tables (store w) ''team_aliases'') = r # rs"
    and "TeamAlias now r = Inr y"
  shows "get_by_alias F now a w = (Inr (Some y), w)"
  using assms
  by (simp add: get_by_alias_def execute_query_accepted no_results_def built_def first_row_def
      TeamAlias_model_def)

lemma create_cases:
  assumes "create F svc x w = (r, wa)"
  shows "store wa = store w
       \<or> store wa = snd (run (Insert (table_name svc) (create_data svc x)) (store w))"
  using assms
  by (auto simp add: create_def execute_query_cases split: option.splits)

lemma TeamAlias_kwargs:
  "TeamAlias now [(''team_id'', VInt tid), (''alias'', VStr a), (''source'', py_opt_str source)]
   = Inr \<lparr>created_at = Some now, updated_at = Some now, ta_id = None, team_id = tid,
          alias_text = a, ta_source = source\<rparr>"
  by (cases source)
     (simp_all add: TeamAlias_def opt_time_def opt_int_def req_int_def req_str_def opt_str_def
       py_opt_str_def)

lemma create_data_alias:
  "map_of (create_data (alias_service now)
     \<lparr>created_at = Some now, updated_at = Some now, ta_id = None, team_id = tid,
          alias_text = a, ta_source = source\<rparr>) ''alias'' = Some (VStr a)"
  by (cases source)
     (simp_all add: create_data_def alias_service_def TeamAlias_model_def TeamAlias_dump_def
      dump_timestamps_def dump_field_def)

lemma add_alias_store:
  assumes "add_alias F Team now tid a source w = (res, w')"
  shows "store w' = store w
       \<or> (filter (matches [(''alias'', VStr a)]) (tables (store w) ''team_aliases'') = []
          \<and> (\<exists>row. map_of row ''alias'' = Some (VStr a)
                \<and> store w' = snd (run (Insert ''team_aliases'' row) (store w))))"
proof -
  obtain ra wa where g: "get_by_id F (team_service Team) (VInt tid) w = (ra, wa)"
    by (cases "get_by_id F (team_service Team) (VInt tid) w")
  from get_by_id_store [OF g] have sa: "store wa = store w" by simp
  obtain rb wb where b: "get_by_alias F now a wa = (rb, wb)"
    by (cases "get_by_alias F now a wa")
  from get_by_alias_cases [OF b] sa
  have sb: "store wb = store w"
    and nb: "rb = Inr None \<longrightarrow>
            filter (matches [(''alias'', VStr a)]) (tables (store w) ''team_aliases'') = []"
    by simp_all
  let ?x = "\<lparr>created_at = Some now, updated_at = Some now, ta_id = None, team_id = tid,
          alias_text = a, ta_source = source\<rparr>"
  obtain rc wc where c: "create F (alias_service now) ?x wb = (rc, wc)"
    by (cases "create F (alias_service now) ?x wb")
  have tn: "table_name (alias_service now) = ''team_aliases''"
    by (simp add: alias_service_def)
  from create_cases [OF c] sb tn
  have sc: "store wc = store w
       \<or> store wc = snd (run (Insert ''team_aliases'' (create_data (alias_service now) ?x)) (store w))"
    by simp
  show ?thesis
  proof (cases "\<exists>y. ra = Inr (Some y) \<and> rb = Inr None")
    case False
    with assms g b sa sb show ?thesis
      by (auto simp add: add_alias_def split: sum.splits option.splits)
  next
    case True
    then have w': "w' = wc"
      using assms g b c by (auto simp add: add_alias_def TeamAlias_kwargs split: sum.splits)
    from True nb
    have "filter (matches [(''alias'', VStr a)]) (tables (store w) ''team_aliases'') = []"
      by blast
    with sc w' create_data_alias [of now tid a source] show ?thesis
      by blast
  qed
qed


lemma alias_cells_insert:
  assumes "filter (matches [(''alias'', VStr a)]) (tables (store w) ''team_aliases'') = []"
    and "map_of row ''alias'' = Some (VStr a)"
    and "store w' = snd (run (Insert ''team_aliases'' row) (store w))"
    and "distinct (alias_cells w)"
  shows "distinct (alias_cells w')"
proof -
  have "\<forall>r\<in>set (tables (store w) ''team_aliases''). map_of r ''alias'' \<noteq> Some (VStr a)"
    using assms(1) by (auto simp add: filter_empty_conv matches_def)
  then have fresh: "Some (VStr a) \<notin> set (alias_cells w)"
    by (auto simp add: alias_cells_def)
  have "alias_cells w' = alias_cells w @ [Some (VStr a)]"
    using assms(2,3) by (simp add: alias_cells_def stored_row_def split: option.splits)
  with fresh assms(4) show ?thesis by simp
qed

text \<open>
  C7. \<open>add_alias\<close> returns absent and changes nothing when no team has the id. When
  the team exists and a row of the alias table already holds the alias string, for this
  team or for another, it returns that row as it is and the world is unchanged; whenever
  such a row exists the store is unchanged, so no row is created. Every call, whatever
  the store refuses, keeps the alias strings of the alias table pairwise distinct.
\<close>

theorem add_alias_unique:
  assumes "res = fst (add_alias F Team now tid a source w)"
    and "w' = snd (add_alias F Team now tid a source w)"
  shows "(F (Select ''teams'' [(''id'', VInt tid)]) (store w) = None
          \<and> filter (matches [(''id'', VInt tid)]) (tables (store w) ''teams'') = []
          \<longrightarrow> res = Inr None \<and> w' = w)
       \<and> (F (Select ''teams'' [(''id'', VInt tid)]) (store w) = None
          \<and> F (Select ''team_aliases'' [(''alias'', VStr a)]) (store w) = None
          \<and> filter (matches [(''id'', VInt tid)]) (tables (store w) ''teams'') = t # ts
          \<and> construct Team t = Inr x
          \<and> filter (matches [(''alias'', VStr a)]) (tables (store w) ''team_aliases'') = r # rs
          \<and> TeamAlias now r = Inr y
          \<longrightarrow> res = Inr (Some y) \<and> w' = w)
       \<and> (filter (matches [(''alias'', VStr a)]) (tables (store w) ''team_aliases'') \<noteq> []
          \<longrightarrow> store w' = store w)
       \<and> (distinct (alias_cells w) \<longrightarrow> distinct (alias_cells w'))"
proof -
  have tn: "table_name (team_service Team) = ''teams''"
    and mc: "model_class (team_service Team) = Team"
    by (simp_all add: team_service_def)
  have absent: "F (Select ''teams'' [(''id'', VInt tid)]) (store w) = None
          \<and> filter (matches [(''id'', VInt tid)]) (tables (store w) ''teams'') = []
          \<longrightarrow> res = Inr None \<and> w' = w"
  proof
    assume h: "F (Select ''teams'' [(''id'', VInt tid)]) (store w) = None
          \<and> filter (matches [(''id'', VInt tid)]) (tables (store w) ''teams'') = []"
    then have "get_by_id F (team_service Team) (VInt tid) w = (Inr None, w)"
      by (simp add: get_by_id_def execute_query_accepted no_results_def tn)
    then show "res = Inr None \<and> w' = w"
      using assms by (simp add: add_alias_def)
  qed
  have existing: "F (Select ''teams'' [(''id'', VInt tid)]) (store w) = None
          \<and> F (Select ''team_aliases'' [(''alias'', VStr a)]) (store w) = None
          \<and> filter (matches [(''id'', VInt tid)]) (tables (store w) ''teams'') = t # ts
          \<and> construct Team t = Inr x
          \<and> filter (matches [(''alias'', VStr a)]) (tables (store w) ''team_aliases'') = r # rs
          \<and> TeamAlias now r = Inr y
          \<longrightarrow> res = Inr (Some y) \<and> w' = w"
  proof
    assume h: "F (Select ''teams'' [(''id'', VInt tid)]) (store w) = None
          \<and> F (Select ''team_aliases'' [(''alias'', VStr a)]) (store w) = None
          \<and> filter (matches [(''id'', VInt tid)]) (tables (store w) ''teams'') = t # ts
          \<and> construct Team t = Inr x
          \<and> filter (matches [(''alias'', VStr a)]) (tables (store w) ''team_aliases'') = r # rs
          \<and> TeamAlias now r = Inr y"
    then have g: "get_by_id F (team_service Team) (VInt tid) w = (Inr (Some x), w)"
      using get_by_id_found [of F "team_service Team" "VInt tid" w t ts x] tn mc by simp
    from h have b: "get_by_alias F now a w = (Inr (Some y), w)"
      using get_by_alias_found [of F a w r rs now y] by simp
    from g b show "res = Inr (Some y) \<and> w' = w"
      using assms by (simp add: add_alias_def)
  qed
  from add_alias_store [OF surjective_pairing, of F Team now tid a source w]
  have st: "store w' = store w
       \<or> (filter (matches [(''alias'', VStr a)]) (tables (store w) ''team_aliases'') = []
          \<and> (\<exists>row. map_of row ''alias'' = Some (VStr a)
                \<and> store w' = snd (run (Insert ''team_aliases'' row) (store w))))"
    using assms(2) by simp
  then have norow: "filter (matches [(''alias'', VStr a)]) (tables (store w) ''team_aliases'') \<noteq> []
          \<longrightarrow> store w' = store w"
    by blast
  have uniq: "distinct (alias_cells w) \<longrightarrow> distinct (alias_cells w')"
    using st alias_cells_insert [of a w _ w'] by (auto simp add: alias_cells_def)
  from absent existing norow uniq show ?thesis by blast
qed

theorem add_alias_unique_witness:
  "filter (matches [(''id'', VInt 1)]) (tables (store team_world) ''teams'')
     = [[(''id'', VInt 1), (''name'', VStr ''Lake City''),
         (''normalized_name'', VStr ''lake_city'')]]
   \<and> filter (matches [(''alias'', VStr ''LC'')]) (tables (store team_world) ''team_aliases'')
     = [[(''id'', VInt 5), (''team_id'', VInt 2), (''alias'', VStr ''LC''),
         (''created_at'', VTime 3), (''updated_at'', VTime 3)]]
   \<and> distinct (alias_cells team_world)
   \<and> fst (add_alias healthy plain_model 9 1 ''LC'' (Some ''scraper'') team_world)
     = Inr (Some \<lparr>created_at = Some 3, updated_at = Some 3, ta_id = Some 5, team_id = 2,
                  alias_text = ''LC'', ta_source = None\<rparr>)
   \<and> snd (add_alias healthy plain_model 9 1 ''LC'' (Some ''scraper'') team_world) = team_world
   \<and> fst (add_alias healthy plain_model 9 3 ''LC'' None team_world) = Inr None
   \<and> distinct (alias_cells (snd (add_alias healthy plain_model 9 1 ''Lakers'' None team_world)))"
proof -
  let ?t = "[(''id'', VInt 1), (''name'', VStr ''Lake City''),
         (''normalized_name'', VStr ''lake_city'')]"
  let ?r = "[(''id'', VInt 5), (''team_id'', VInt 2), (''alias'', VStr ''LC''),
         (''created_at'', VTime 3), (''updated_at'', VTime 3)]"
  let ?y = "\<lparr>created_at = Some 3, updated_at = Some 3, ta_id = Some 5, team_id = 2,
                  alias_text = ''LC'', ta_source = None\<rparr>"
  have ft: "filter (matches [(''id'', VInt 1)]) (tables (store team_world) ''teams'') = ?t # []"
    by (simp add: team_world_def matches_def)
  have fr: "filter (matches [(''alias'', VStr ''LC'')]) (tables (store team_world) ''team_aliases'')
     = ?r # []"
    by (simp add: team_world_def matches_def)
  have ct: "construct plain_model ?t = Inr ?t"
    by (simp add: plain_model_def)
  have cr: "TeamAlias 9 ?r = Inr ?y"
    by (simp add: TeamAlias_def opt_time_def opt_int_def req_int_def req_str_def opt_str_def)
  have d: "distinct (alias_cells team_world)"
    by (simp add: alias_cells_def team_world_def)
  have h: "\<And>q. healthy q (store team_world) = None"
    by (simp add: healthy_def)
  have a: "fst (add_alias healthy plain_model 9 1 ''LC'' (Some ''scraper'') team_world) = Inr (Some ?y)
     \<and> snd (add_alias healthy plain_model 9 1 ''LC'' (Some ''scraper'') team_world) = team_world"
    using add_alias_unique [where F = healthy and Team = plain_model and now = 9 and tid = 1
        and a = "''LC''" and source = "Some ''scraper''" and w = team_world and t = ?t
        and ts = "[]" and x = ?t and r = ?r and rs = "[]" and y = ?y, OF refl refl]
      h ft fr ct cr
    by blast
  have n: "filter (matches [(''id'', VInt 3)]) (tables (store team_world) ''teams'') = []"
    by (simp add: team_world_def matches_def)
  have b: "fst (add_alias healthy plain_model 9 3 ''LC'' None team_world) = Inr None"
    using add_alias_unique [where F = healthy and Team = plain_model and now = 9 and tid = 3
        and a = "''LC''" and source = None and w = team_world and t = ?t
        and ts = "[]" and x = ?t and r = ?r and rs = "[]" and y = ?y, OF refl refl]
      h n
    by blast
  have c: "distinct (alias_cells (snd (add_alias healthy plain_model 9 1 ''Lakers'' None team_world)))"
    using add_alias_unique [where F = healthy and Team = plain_model and now = 9 and tid = 1
        and a = "''Lakers''" and source = None and w = team_world and t = ?t
        and ts = "[]" and x = ?t and r = ?r and rs = "[]" and y = ?y, OF refl refl]
      d
    by blast
  from ft fr d a b c show ?thesis by simp
qed

section \<open>Properties of \<open>create_with_settings\<close>\<close>

lemma create_with_settings_not_atomic:
  assumes "F (Insert ''users'' (create_data (user_service User) user)) (store w) = None"
    and "construct User (stored_row (store w) ''users'' (create_data (user_service User) user))
           = Inr created"
    and "F (Insert ''user_settings''
              (create_data settings_service (s\<lparr>us_user_id := user_id_of created\<rparr>)))
           (snd (run (Insert ''users'' (create_data (user_service User) user)) (store w)))
           = Some e"
  shows "fst (create_with_settings F User user_id_of user (Some s) w) = Inl e
       \<and> tables (store (snd (create_with_settings F User user_id_of user (Some s) w))) ''users''
           = tables (store w) ''users''
             @ [stored_row (store w) ''users'' (create_data (user_service User) user)]"
proof -
  have tn: "table_name (user_service User) = ''users''"
    and mc: "model_class (user_service User) = User"
    and ts: "table_name settings_service = ''user_settings''"
    by (simp_all add: user_service_def settings_service_def)
  let ?d = "create_data (user_service User) user"
  have c: "create F (user_service User) user w
         = (Inr created, w\<lparr>store := snd (run (Insert ''users'' ?d) (store w))\<rparr>)"
    using assms(1,2)
    by (simp add: create_def tn mc execute_query_cases built_def first_row_def)
  show ?thesis
    using assms(3)
    by (simp add: create_with_settings_def c create_def [of F settings_service] ts
        execute_query_cases del: run.simps)
       simp
qed

text \<open>
  C4. \<open>create_with_settings\<close> at a concrete input: the store accepts the insert into
  \<open>users\<close> and refuses the insert into \<open>user_settings\<close>. The call raises the
  store's error, and the user row is in the table afterwards: the two inserts are two
  separate \<open>execute_query\<close> calls, not one transaction.
\<close>

theorem create_with_settings_partial:
  "fst (create_with_settings settings_fail plain_model plain_id sample_user (Some sample_settings)
          user_world) = Inl (StorageError ''forced'')
   \<and> tables (store (snd (create_with_settings settings_fail plain_model plain_id sample_user
          (Some sample_settings) user_world))) ''users''
       = [[(''created_at'', VTime 4), (''updated_at'', VTime 4), (''id'', VStr ''u1''),
           (''email'', VStr ''coach@club.org''), (''is_new_user'', VInt 1),
           (''is_admin'', VBool False), (''has_consented'', VBool False),
           (''has_completed_setup'', VBool False)]]
   \<and> tables (store (snd (create_with_settings settings_fail plain_model plain_id sample_user
          (Some sample_settings) user_world))) ''user_settings'' = []"
  by (simp add: create_with_settings_def create_def create_data_def execute_query_cases
      settings_fail_def user_service_def settings_service_def plain_model_def
      UserSettings_model_def UserSettings_dump_def dump_field_def sample_user_def
      sample_settings_def user_world_def is_id_auto_assigned_def stored_row_def next_serial_def
      built_def first_row_def plain_id_def)


section \<open>Failures of the store\<close>































section \<open>Malformed JSON text\<close>

lemma map_of_dump_field: "map_of (dump_field k v) k' = (if k' = k then v else None)"
  by (simp add: dump_field_def split: option.splits)

lemma map_of_app:
  "map_of (xs @ ys) k = (case map_of xs k of Some v \<Rightarrow> Some v | None \<Rightarrow> map_of ys k)"
  by (simp add: map_add_def split: option.splits)

lemma Schedule_dump_participants:
  "map_of (Schedule_dump s) ''home_participants'' = map_option VStr (home_participants s)"
  "map_of (Schedule_dump s) ''away_participants'' = map_option VStr (away_participants s)"
  by (simp_all add: Schedule_dump_def dump_timestamps_def map_of_app map_of_dump_field
      del: map_of_append split: option.splits)

lemma parsed_participants_other:
  "k' \<noteq> k \<Longrightarrow> map_of (parsed_participants loads k field r) k' = map_of r k'"
  by (simp add: parsed_participants_def update_conv' split: option.splits)

lemma parsed_participants_bad:
  "loads body = None \<Longrightarrow> parsed_participants loads k (Some body) r = r"
  by (simp add: parsed_participants_def)

lemma to_dict_read:
  "k \<noteq> ''formatted_datetime'' \<Longrightarrow>
   map_of (to_dict loads fromisoformat strptime s) k
   = map_of (parsed_participants loads ''away_participants'' (away_participants s)
       (parsed_participants loads ''home_participants'' (home_participants s)
          (Schedule_dump s))) k"
  by (simp add: to_dict_def Let_def update_conv' split: option.splits)

text \<open>
  C8, as stated, at a concrete input. A schedule whose \<open>home_participants\<close> text is
  not JSON: \<open>to_dict\<close> raises nothing and returns the dictionary with the stored
  text as it is, next to the parsed \<open>away_participants\<close>.
\<close>

theorem to_dict_keeps_malformed_text:
  "sample_loads ''not json'' = None
   \<and> to_dict sample_loads sample_fromisoformat sample_strptime sample_schedule
     = [(''created_at'', VTime 3), (''updated_at'', VTime 3), (''id'', VInt 7),
        (''user_id'', VStr ''u1''), (''recruit_id'', VInt 1), (''home_team'', VStr ''Lake City''),
        (''home_participants'', VStr ''not json''), (''away_participants'', VJson (JArr [])),
        (''is_master'', VBool False), (''source'', VStr ''manual''),
        (''date'', VStr ''2024-05-01''), (''formatted_datetime'', VStr ''2024-05-01T00:00:00'')]"
  by (simp add: to_dict_def Let_def Schedule_dump_def dump_timestamps_def dump_field_def
      parsed_participants_def formatted_datetime_def sample_loads_def sample_fromisoformat_def
      sample_strptime_def sample_schedule_def)

text \<open>
  C8, amended. For a text that \<open>json.loads\<close> rejects, the validators of the cache
  result, of the extraction feedback fields and of the scraper parameters and results
  raise a validation error, and so does the construction of a \<open>GPTCache\<close> from a row
  holding the text. \<open>Schedule.to_dict\<close> does not: it returns the participants text
  untransformed.
\<close>

theorem malformed_json_text:
  assumes "loads body = None"
  shows "validate_result_json loads (VStr body)
           = Inl (ValidationError ''Invalid JSON format for result_json'')
       \<and> validate_json_fields loads (VStr body) = Inl (ValidationError ''Invalid JSON format'')
       \<and> validate_parameters loads (VStr body)
           = Inl (ValidationError ''Invalid JSON format for parameters'')
       \<and> validate_results loads (VStr body)
           = Inl (ValidationError ''Invalid JSON format for results'')
       \<and> (map_of kw ''result_json'' = Some (VStr body) \<longrightarrow> isl (GPTCache loads now kw))
       \<and> (home_participants s = Some body \<longrightarrow>
            map_of (to_dict loads fromisoformat strptime s) ''home_participants''
              = Some (VStr body))
       \<and> (away_participants s = Some body \<longrightarrow>
            map_of (to_dict loads fromisoformat strptime s) ''away_participants''
              = Some (VStr body))"
proof -
  have v: "validate_result_json loads (VStr body)
           = Inl (ValidationError ''Invalid JSON format for result_json'')"
    "validate_json_fields loads (VStr body) = Inl (ValidationError ''Invalid JSON format'')"
    "validate_parameters loads (VStr body)
           = Inl (ValidationError ''Invalid JSON format for parameters'')"
    "validate_results loads (VStr body)
           = Inl (ValidationError ''Invalid JSON format for results'')"
    using assms
    by (simp_all add: validate_result_json_def validate_json_fields_def validate_parameters_def
        validate_results_def)
  have g: "map_of kw ''result_json'' = Some (VStr body) \<longrightarrow> isl (GPTCache loads now kw)"
    using v(1) by (auto simp add: GPTCache_def result_json_field_def split: sum.splits)
  have h: "home_participants s = Some body \<longrightarrow>
            map_of (to_dict loads fromisoformat strptime s) ''home_participants''
              = Some (VStr body)"
    using assms
    by (simp add: to_dict_read parsed_participants_other parsed_participants_bad
        Schedule_dump_participants)
  have a: "away_participants s = Some body \<longrightarrow>
            map_of (to_dict loads fromisoformat strptime s) ''away_participants''
              = Some (VStr body)"
    using assms
    by (simp add: to_dict_read parsed_participants_other parsed_participants_bad
        Schedule_dump_participants)
  from v g h a show ?thesis by blast
qed

theorem malformed_json_text_witness:
  "sample_loads ''not json'' = None
   \<and> validate_result_json sample_loads (VStr ''not json'')
       = Inl (ValidationError ''Invalid JSON format for result_json'')
   \<and> isl (GPTCache sample_loads 9
              [(''content_hash'', VStr ''900150983cd24fb0d6963f7d28e17f72''),
               (''result_json'', VStr ''not json'')])
   \<and> map_of (to_dict sample_loads sample_fromisoformat sample_strptime sample_schedule)
         ''home_participants'' = Some (VStr ''not json'')"
proof -
  have n: "sample_loads ''not json'' = None"
    by (simp add: sample_loads_def)
  note th = malformed_json_text [where loads = sample_loads and body = "''not json''"
      and kw = "[(''content_hash'', VStr ''900150983cd24fb0d6963f7d28e17f72''),
               (''result_json'', VStr ''not json'')]"
      and now = 9 and s = sample_schedule and fromisoformat = sample_fromisoformat
      and strptime = sample_strptime, OF n]
  have k: "map_of [(''content_hash'', VStr ''900150983cd24fb0d6963f7d28e17f72''),
               (''result_json'', VStr ''not json'')] ''result_json'' = Some (VStr ''not json'')"
    by simp
  have p: "home_participants sample_schedule = Some ''not json''"
    by (simp add: sample_schedule_def)
  from th n k p show ?thesis by blast
qed

end
